theory Spec2Isabelle
  imports Complex_Main
begin

section \<open>Data model (types.ts)\<close>

text \<open>
  JavaScript numbers are modelled as follows: coordinates, sizes, speeds, angles and
  time stamps are \<open>real\<close>; health, damage, score and level, which the code only ever
  moves by whole steps, are \<open>int\<close>. Decimal literals of the source (\<open>0.2\<close>, \<open>0.15\<close>)
  are read as exact rationals. Entity ids are strings in the source; the only id the
  code ever inspects is the marker \<open>'dead'\<close> put on a boss, so an id is a small
  datatype and every \<open>Math.random().toString()\<close> is the opaque \<open>Random_id\<close>.
  Particles, the star and planet background, audio, image loading, \<open>startTimeRef\<close>
  (written, never read) and the host callbacks (\<open>onScoreUpdate\<close> and the others)
  are not part of the model: the simulation never reads them back.
\<close>

datatype GameState = START | PLAYING | PAUSED | GAMEOVER

datatype EnemyType = BASIC | FAST | HEAVY | RANGED

datatype PowerUpType = TRIPLE_SHOT | SHIELD

datatype ident = Player_id | Random_id | Boss_id nat | Escort_id nat | Dead_id

record Player =
  p_id :: ident
  p_x :: real
  p_y :: real
  p_width :: real
  p_height :: real
  p_speed :: real
  p_health :: int
  p_maxHealth :: int
  shieldActive :: bool
  invincible :: bool
  invincibleTimer :: real
  powerUpTimer :: real
  activePowerUp :: "PowerUpType option"

record Bullet =
  b_id :: ident
  b_x :: real
  b_y :: real
  b_width :: real
  b_height :: real
  b_speed :: real
  damage :: int
  angle :: real
  isEnemy :: bool

record Enemy =
  e_id :: ident
  e_x :: real
  e_y :: real
  e_width :: real
  e_height :: real
  e_speed :: real
  e_type :: EnemyType
  e_health :: int
  e_maxHealth :: int
  scoreValue :: int
  isBoss :: bool
  attackTimer :: "real option"

record PowerUp =
  pu_id :: ident
  pu_x :: real
  pu_y :: real
  pu_width :: real
  pu_height :: real
  pu_speed :: real
  pu_type :: PowerUpType

section \<open>Constants (constants.ts)\<close>

definition CANVAS_WIDTH :: real where "CANVAS_WIDTH = 800"
definition CANVAS_HEIGHT :: real where "CANVAS_HEIGHT = 900"
definition PLAYER_SIZE :: real where "PLAYER_SIZE = 50"
definition PLAYER_SPEED :: real where "PLAYER_SPEED = 7"
definition PLAYER_MAX_HEALTH :: int where "PLAYER_MAX_HEALTH = 3"
definition BULLET_WIDTH :: real where "BULLET_WIDTH = 4"
definition BULLET_HEIGHT :: real where "BULLET_HEIGHT = 15"
definition BULLET_SPEED :: real where "BULLET_SPEED = 15"
definition POWERUP_SIZE :: real where "POWERUP_SIZE = 30"
definition POWERUP_DURATION :: real where "POWERUP_DURATION = 10000"

record EnemyConfig =
  ec_width :: real
  ec_height :: real
  ec_speed :: real
  ec_health :: int
  ec_scoreValue :: int

fun ENEMY_CONFIGS :: "EnemyType \<Rightarrow> EnemyConfig" where
  "ENEMY_CONFIGS BASIC =
     \<lparr>ec_width = 40, ec_height = 40, ec_speed = 2.5, ec_health = 1, ec_scoreValue = 100\<rparr>"
| "ENEMY_CONFIGS FAST =
     \<lparr>ec_width = 30, ec_height = 30, ec_speed = 5.5, ec_health = 1, ec_scoreValue = 200\<rparr>"
| "ENEMY_CONFIGS HEAVY =
     \<lparr>ec_width = 60, ec_height = 60, ec_speed = 1.5, ec_health = 6, ec_scoreValue = 500\<rparr>"
| "ENEMY_CONFIGS RANGED =
     \<lparr>ec_width = 45, ec_height = 45, ec_speed = 2.2, ec_health = 3, ec_scoreValue = 300\<rparr>"

record BossConfig =
  bc_width :: real
  bc_height :: real
  bc_health :: int
  bc_scoreValue :: int
  bc_speed :: real

definition BOSS_CONFIGS :: "int \<Rightarrow> BossConfig option" where
  "BOSS_CONFIGS k =
     (if k = 5 then Some \<lparr>bc_width = 150, bc_height = 100, bc_health = 100,
                            bc_scoreValue = 5000, bc_speed = 1.2\<rparr>
      else if k = 10 then Some \<lparr>bc_width = 200, bc_height = 150, bc_health = 300,
                            bc_scoreValue = 15000, bc_speed = 1.8\<rparr>
      else if k = 20 then Some \<lparr>bc_width = 250, bc_height = 200, bc_health = 800,
                            bc_scoreValue = 50000, bc_speed = 2.5\<rparr>
      else if k = 30 then Some \<lparr>bc_width = 300, bc_height = 250, bc_health = 2500,
                            bc_scoreValue = 100000, bc_speed = 3.2\<rparr>
      else if k = 50 then Some \<lparr>bc_width = 400, bc_height = 350, bc_health = 10000,
                            bc_scoreValue = 500000, bc_speed = 4\<rparr>
      else None)"

section \<open>Component state of GameCanvas\<close>

text \<open>
  A callback registered with \<open>setTimeout(..., 3000)\<close> by the boss warning. It closes
  over the \<open>now\<close> and the \<open>config\<close> of the tick that registered it; \<open>to_due\<close> is the
  time from which the host may run it.
\<close>

record Timeout =
  to_due :: real
  to_now :: real
  to_config :: BossConfig

record World =
  gameState :: GameState
  prevGameState :: GameState
  score :: int
  level :: int
  health :: int
  lastEnemySpawn :: real
  lastPowerUpSpawn :: real
  lastShot :: real
  lastLevelHealed :: int
  bossWarningActive :: bool
  bossEntranceTimer :: real
  player :: Player
  enemies :: "Enemy list"
  bullets :: "Bullet list"
  powerUps :: "PowerUp list"
  bosses :: "Enemy list"
  timeouts :: "Timeout list"

text \<open>
  What one call of \<open>update\<close> reads from outside: \<open>Date.now()\<close>, the pointer target
  (\<open>touchRef\<close>), the pressed keys (\<open>keysRef\<close>) and the results of the calls of
  \<open>Math.random()\<close>, as a sequence that the tick consumes from position 0. The
  draws that only make up an id are left out of the sequence.
\<close>

record Input =
  now :: real
  touch :: "(real \<times> real) option"
  keys :: "string set"
  rand :: "nat \<Rightarrow> real"

section \<open>The tick: update\<close>

subsection \<open>1. Player movement and boundary checks\<close>

definition movePlayer :: "Input \<Rightarrow> Player \<Rightarrow> Player" where
  "movePlayer inp p =
     (case touch inp of
        Some (tx, ty) \<Rightarrow>
          (let targetX = tx - p_width p / 2;
               targetY = ty - p_height p / 2
           in p\<lparr>p_x := p_x p + (targetX - p_x p) * 0.2,
                 p_y := p_y p + (targetY - p_y p) * 0.2\<rparr>)
      | None \<Rightarrow>
          (let p1 = (if ''ArrowLeft'' \<in> keys inp \<or> ''KeyA'' \<in> keys inp
                     then p\<lparr>p_x := p_x p - p_speed p\<rparr> else p);
               p2 = (if ''ArrowRight'' \<in> keys inp \<or> ''KeyD'' \<in> keys inp
                     then p1\<lparr>p_x := p_x p1 + p_speed p1\<rparr> else p1);
               p3 = (if ''ArrowUp'' \<in> keys inp \<or> ''KeyW'' \<in> keys inp
                     then p2\<lparr>p_y := p_y p2 - p_speed p2\<rparr> else p2)
           in (if ''ArrowDown'' \<in> keys inp \<or> ''KeyS'' \<in> keys inp
               then p3\<lparr>p_y := p_y p3 + p_speed p3\<rparr> else p3)))"

definition clampPlayer :: "Player \<Rightarrow> Player" where
  "clampPlayer p =
     p\<lparr>p_x := max 0 (min (CANVAS_WIDTH - p_width p) (p_x p)),
       p_y := max 0 (min (CANVAS_HEIGHT - p_height p) (p_y p))\<rparr>"

definition handleMovement :: "Input \<Rightarrow> World \<Rightarrow> World" where
  "handleMovement inp w = w\<lparr>player := clampPlayer (movePlayer inp (player w))\<rparr>"

subsection \<open>2. Shooting\<close>

definition playerBullet :: "real \<Rightarrow> real \<Rightarrow> real \<Rightarrow> Bullet" where
  "playerBullet bx by a =
     \<lparr>b_id = Random_id, b_x = bx, b_y = by, b_width = BULLET_WIDTH,
      b_height = BULLET_HEIGHT, b_speed = BULLET_SPEED, damage = 1, angle = a,
      isEnemy = False\<rparr>"

definition shotInterval :: "int \<Rightarrow> real" where
  "shotInterval lvl = (if lvl \<ge> 30 then 120 else 200)"

definition fires :: "Input \<Rightarrow> World \<Rightarrow> bool" where
  "fires inp w =
     ((''Space'' \<in> keys inp \<or> touch inp \<noteq> None)
      \<and> now inp - lastShot w > shotInterval (level w))"

definition shotBullets :: "World \<Rightarrow> Bullet list" where
  "shotBullets w =
     (let p = player w;
          bulletX = p_x p + p_width p / 2 - BULLET_WIDTH / 2;
          bulletY = p_y p
      in if activePowerUp p = Some TRIPLE_SHOT \<or> (level w \<ge> 15 \<and> level w < 25)
         then [playerBullet bulletX bulletY 0,
               playerBullet bulletX bulletY (- 0.2),
               playerBullet bulletX bulletY 0.2]
         else if level w \<ge> 25
         then map (\<lambda>i. playerBullet bulletX bulletY (real_of_int i * 0.15)) [- 2 .. 2]
         else if level w \<ge> 5
         then [playerBullet (p_x p + 10) bulletY 0,
               playerBullet (p_x p + p_width p - 10 - BULLET_WIDTH) bulletY 0]
         else [playerBullet bulletX bulletY 0])"

definition handleShooting :: "Input \<Rightarrow> World \<Rightarrow> World" where
  "handleShooting inp w =
     (if fires inp w
      then w\<lparr>bullets := bullets w @ shotBullets w, lastShot := now inp\<rparr>
      else w)"

subsection \<open>3. Bullets\<close>

definition moveBullet :: "Bullet \<Rightarrow> Bullet" where
  "moveBullet b =
     (let dir = (if isEnemy b then - 1 else 1)
      in b\<lparr>b_x := b_x b + sin (angle b) * b_speed b,
            b_y := b_y b - cos (angle b) * b_speed b * dir\<rparr>)"

definition bulletOnScreen :: "Bullet \<Rightarrow> bool" where
  "bulletOnScreen b =
     (b_y b > - 50 \<and> b_y b < CANVAS_HEIGHT + 50 \<and> b_x b > - 50 \<and> b_x b < CANVAS_WIDTH + 50)"

definition updateBullets :: "World \<Rightarrow> World" where
  "updateBullets w = w\<lparr>bullets := filter bulletOnScreen (map moveBullet (bullets w))\<rparr>"

subsection \<open>4. Bosses: movement and attack patterns\<close>

text \<open>
  \<open>Math.atan2\<close> on reals; the signed zeros of IEEE arithmetic are not modelled
  (they matter only when both arguments are zero).
\<close>

definition atan2 :: "real \<Rightarrow> real \<Rightarrow> real" where
  "atan2 yy xx =
     (if xx > 0 then arctan (yy / xx)
      else if xx < 0 then (if yy \<ge> 0 then arctan (yy / xx) + pi else arctan (yy / xx) - pi)
      else if yy > 0 then pi / 2
      else if yy < 0 then - pi / 2
      else 0)"

definition enemyBullet ::
  "real \<Rightarrow> real \<Rightarrow> real \<Rightarrow> real \<Rightarrow> real \<Rightarrow> int \<Rightarrow> real \<Rightarrow> Bullet" where
  "enemyBullet bx by bw bh sp dmg a =
     \<lparr>b_id = Random_id, b_x = bx, b_y = by, b_width = bw, b_height = bh,
      b_speed = sp, damage = dmg, angle = a, isEnemy = True\<rparr>"

text \<open>\<open>if (!e.attackTimer) e.attackTimer = 0\<close>: an absent timer reads as 0.\<close>

definition timerOrZero :: "real option \<Rightarrow> real" where
  "timerOrZero t = (case t of None \<Rightarrow> 0 | Some v \<Rightarrow> v)"

definition circularBurst :: "int \<Rightarrow> real \<Rightarrow> real \<Rightarrow> Bullet list" where
  "circularBurst lvl centerX centerY =
     (let count = (if lvl \<ge> 30 then 20 else 12 :: nat)
      in map (\<lambda>i. enemyBullet centerX centerY 8 8 4 1 ((real i / real count) * pi * 2))
           [0 ..< count])"

definition targetedBurst :: "int \<Rightarrow> Player \<Rightarrow> real \<Rightarrow> real \<Rightarrow> Bullet list" where
  "targetedBurst lvl p centerX centerY =
     (let angleToPlayer = atan2 (p_x p + p_width p / 2 - centerX)
                                (- (p_y p + p_height p / 2 - centerY));
          count = (if lvl \<ge> 30 then 5 else 3 :: int)
      in map (\<lambda>i. enemyBullet centerX centerY 10 10 6 1 (angleToPlayer + real_of_int i * 0.15))
           [- (count div 2) .. count div 2])"

definition spiral :: "real \<Rightarrow> real \<Rightarrow> real \<Rightarrow> Bullet list" where
  "spiral t centerX centerY =
     (let time = t / 1000
      in map (\<lambda>i. enemyBullet centerX centerY 8 8 5 1 (time + (real i / 4) * pi * 2))
           [0 ..< 4])"

definition verticalRain :: "real \<Rightarrow> Enemy \<Rightarrow> Bullet list" where
  "verticalRain r boss =
     (let count = (10 :: nat);
          gap = \<lfloor>r * real (count - 2)\<rfloor>
      in map (\<lambda>i. enemyBullet ((CANVAS_WIDTH / real count) * real i + (CANVAS_WIDTH / real count / 2))
                     (e_y boss + e_height boss) 6 20 5 1 0)
           (filter (\<lambda>i. \<not> (int i = gap \<or> int i = gap + 1)) [0 ..< count]))"

definition ultimateWave :: "Enemy \<Rightarrow> Bullet list" where
  "ultimateWave boss =
     map (\<lambda>i. enemyBullet ((CANVAS_WIDTH / 20) * real i) (e_y boss + e_height boss) 10 10 3 2 0)
       [0 ..< 20]"

text \<open>
  The bullets of the pattern chosen by \<open>Math.floor(Math.random() * 4)\<close>, and the
  position in the random sequence after the draws the pattern made.
\<close>

definition patternBullets ::
  "int \<Rightarrow> Input \<Rightarrow> Player \<Rightarrow> Enemy \<Rightarrow> nat \<Rightarrow> Bullet list \<times> nat" where
  "patternBullets lvl inp p boss k =
     (let pattern = \<lfloor>rand inp k * 4\<rfloor>;
          centerX = e_x boss + e_width boss / 2;
          centerY = e_y boss + e_height boss / 2
      in if pattern = 0 then (circularBurst lvl centerX centerY, k + 1)
         else if pattern = 1 then (targetedBurst lvl p centerX centerY, k + 1)
         else if pattern = 2 then (spiral (now inp) centerX centerY, k + 1)
         else (verticalRain (rand inp (k + 1)) boss, k + 2))"

definition bossAttack ::
  "int \<Rightarrow> Input \<Rightarrow> Player \<Rightarrow> Enemy \<Rightarrow> nat \<Rightarrow> Bullet list \<times> nat" where
  "bossAttack lvl inp p boss k =
     (let (bs, k1) = patternBullets lvl inp p boss k
      in if lvl \<ge> 50
         then (if rand inp k1 < 0.1 then (bs @ ultimateWave boss, k1 + 1) else (bs, k1 + 1))
         else (bs, k1))"

definition moveBoss :: "Enemy \<Rightarrow> Enemy" where
  "moveBoss boss =
     (let b1 = boss\<lparr>e_x := e_x boss + e_speed boss\<rparr>;
          b2 = (if e_x b1 \<le> 0 \<or> e_x b1 + e_width b1 \<ge> CANVAS_WIDTH
                then b1\<lparr>e_speed := e_speed b1 * (- 1)\<rparr> else b1);
          b3 = (if e_y b2 < 50 then b2\<lparr>e_y := e_y b2 + 1\<rparr> else b2)
      in b3\<lparr>attackTimer := Some (timerOrZero (attackTimer b3))\<rparr>)"

definition attackInterval :: "int \<Rightarrow> real" where
  "attackInterval lvl = (if lvl \<ge> 20 then 500 else 1000)"

definition updateBoss ::
  "int \<Rightarrow> Input \<Rightarrow> Player \<Rightarrow> Enemy \<Rightarrow> nat \<Rightarrow> Enemy \<times> Bullet list \<times> nat" where
  "updateBoss lvl inp p boss k =
     (let b = moveBoss boss
      in if now inp - timerOrZero (attackTimer b) > attackInterval lvl
         then (let (bs, k1) = bossAttack lvl inp p b k
               in (b\<lparr>attackTimer := Some (now inp)\<rparr>, bs, k1))
         else (b, [], k))"

fun updateBossList ::
  "int \<Rightarrow> Input \<Rightarrow> Player \<Rightarrow> Enemy list \<Rightarrow> nat \<Rightarrow> Enemy list \<times> Bullet list \<times> nat" where
  "updateBossList lvl inp p [] k = ([], [], k)"
| "updateBossList lvl inp p (boss # rest) k =
     (let (b, bs, k1) = updateBoss lvl inp p boss k;
          (rest', bs', k2) = updateBossList lvl inp p rest k1
      in (b # rest', bs @ bs', k2))"

definition updateBosses :: "Input \<Rightarrow> World \<Rightarrow> nat \<Rightarrow> World \<times> nat" where
  "updateBosses inp w k =
     (let (bs', shots, k1) = updateBossList (level w) inp (player w) (bosses w) k
      in (w\<lparr>bosses := bs', bullets := bullets w @ shots\<rparr>, k1))"

subsection \<open>5. Boss warning, deferred spawn, entrance, regular spawning\<close>

definition bossLevels :: "int list" where
  "bossLevels = [5, 10, 20, 30, 50]"

text \<open>
  The warning registers the spawn callback. \<open>BOSS_CONFIGS\<close> is defined at every
  boss level, so the \<open>None\<close> branch (where the source would read a field of
  \<open>undefined\<close>) is never taken.
\<close>

definition bossSpawning :: "Input \<Rightarrow> World \<Rightarrow> World" where
  "bossSpawning inp w =
     (if level w \<in> set bossLevels \<and> bosses w = [] \<and> \<not> bossWarningActive w
      then (case BOSS_CONFIGS (level w) of
              None \<Rightarrow> w
            | Some config \<Rightarrow>
                w\<lparr>bossWarningActive := True,
                  enemies := [],
                  timeouts := timeouts w @
                    [\<lparr>to_due = now inp + 3000, to_now = now inp, to_config = config\<rparr>]\<rparr>)
      else w)"

definition bossCount :: "int \<Rightarrow> nat" where
  "bossCount lvl =
     (let c0 = 1;
          c1 = (if lvl = 20 then 2 else c0);
          c2 = (if lvl = 30 then 3 else c1)
      in (if lvl = 50 then 1 else c2))"

definition escortCount :: "int \<Rightarrow> nat" where
  "escortCount lvl =
     (let c0 = 0;
          c1 = (if lvl = 20 then 2 else c0);
          c2 = (if lvl = 30 then 3 else c1)
      in (if lvl = 50 then 5 else c2))"

definition spawnBoss :: "BossConfig \<Rightarrow> real \<Rightarrow> nat \<Rightarrow> nat \<Rightarrow> Enemy" where
  "spawnBoss config t cnt i =
     \<lparr>e_id = Boss_id i,
      e_x = (CANVAS_WIDTH / real (cnt + 1)) * real (i + 1) - bc_width config / 2,
      e_y = - bc_height config,
      e_width = bc_width config,
      e_height = bc_height config,
      e_speed = bc_speed config * (if i mod 2 = 0 then 1 else - 1),
      e_type = BASIC,
      e_health = bc_health config,
      e_maxHealth = bc_health config,
      scoreValue = bc_scoreValue config,
      isBoss = True,
      attackTimer = Some t\<rparr>"

definition spawnEscort :: "real \<Rightarrow> nat \<Rightarrow> nat \<Rightarrow> Enemy" where
  "spawnEscort t cnt i =
     (let eType = HEAVY;
          eConfig = ENEMY_CONFIGS eType
      in \<lparr>e_id = Escort_id i,
          e_x = (CANVAS_WIDTH / real (cnt + 1)) * real (i + 1) - ec_width eConfig / 2,
          e_y = - ec_height eConfig - 100,
          e_width = ec_width eConfig,
          e_height = ec_height eConfig,
          e_speed = ec_speed eConfig,
          e_type = eType,
          e_health = ec_health eConfig * 2,
          e_maxHealth = ec_health eConfig * 2,
          scoreValue = ec_scoreValue eConfig,
          isBoss = False,
          attackTimer = Some (t + 1000)\<rparr>)"

text \<open>
  The body of the \<open>setTimeout\<close> callback. It reads \<open>levelRef.current\<close> when it
  runs, and \<open>now\<close> and \<open>config\<close> from the tick that registered it.
\<close>

definition bossSpawnCallback :: "Timeout \<Rightarrow> World \<Rightarrow> World" where
  "bossSpawnCallback t w =
     (let bc = bossCount (level w);
          ec = escortCount (level w)
      in w\<lparr>bosses := bosses w @ map (spawnBoss (to_config t) (to_now t) bc) [0 ..< bc],
            enemies := enemies w @ map (spawnEscort (to_now t) ec) [0 ..< ec],
            bossEntranceTimer := to_now t,
            bossWarningActive := False\<rparr>)"

text \<open>
  The host runs the oldest pending callback once its delay has passed. Nothing in the
  component ever cancels a pending callback, and the callback does not look at
  \<open>gameState\<close>.
\<close>

definition fireTimeout :: "real \<Rightarrow> World \<Rightarrow> World" where
  "fireTimeout clock w =
     (case timeouts w of
        [] \<Rightarrow> w
      | t # ts \<Rightarrow> (if clock \<ge> to_due t then bossSpawnCallback t (w\<lparr>timeouts := ts\<rparr>) else w))"

definition bossEntrance :: "Input \<Rightarrow> World \<Rightarrow> World \<times> bool" where
  "bossEntrance inp w =
     (if bosses w \<noteq> [] \<and> now inp - bossEntranceTimer w < 2000
      then (w\<lparr>bosses := map (\<lambda>boss. boss\<lparr>e_y := e_y boss + (50 - e_y boss) * 0.05\<rparr>) (bosses w)\<rparr>,
            True)
      else (w, False))"

definition pickType :: "int \<Rightarrow> real \<Rightarrow> EnemyType" where
  "pickType lvl rnd =
     (let t0 = BASIC;
          t1 = (if lvl \<ge> 3 \<and> rnd > 0.6 then FAST else t0);
          t2 = (if lvl \<ge> 5 \<and> rnd > 0.75 then RANGED else t1)
      in (if lvl \<ge> 7 \<and> rnd > 0.9 then HEAVY else t2))"

definition spawnEnemies :: "Input \<Rightarrow> bool \<Rightarrow> World \<Rightarrow> nat \<Rightarrow> World \<times> nat" where
  "spawnEnemies inp isEntering w k =
     (if bosses w = [] \<and> \<not> bossWarningActive w \<and> \<not> isEntering
      then (let spawnInterval = max 300 (1500 - real_of_int (level w) * 120)
            in if now inp - lastEnemySpawn w > spawnInterval
               then (let ty = pickType (level w) (rand inp k);
                         config = ENEMY_CONFIGS ty;
                         scaledHealth = ec_health config + level w div 2
                     in (w\<lparr>enemies := enemies w @
                              [\<lparr>e_id = Random_id,
                                e_x = rand inp (k + 1) * (CANVAS_WIDTH - ec_width config),
                                e_y = - ec_height config,
                                e_width = ec_width config,
                                e_height = ec_height config,
                                e_speed = ec_speed config + real_of_int (level w) * 0.3,
                                e_type = ty,
                                e_health = scaledHealth,
                                e_maxHealth = scaledHealth,
                                scoreValue = ec_scoreValue config,
                                isBoss = False,
                                attackTimer = Some (now inp + rand inp (k + 2) * 2000)\<rparr>],
                            lastEnemySpawn := now inp\<rparr>,
                         k + 3))
               else (w, k))
      else (w, k))"

definition updateEnemy :: "Input \<Rightarrow> Player \<Rightarrow> Enemy \<Rightarrow> Enemy \<times> Bullet list" where
  "updateEnemy inp p e =
     (if e_type e = RANGED
      then (if e_y e < 200 then (e\<lparr>e_y := e_y e + e_speed e\<rparr>, [])
            else (let t0 = timerOrZero (attackTimer e);
                      e1 = e\<lparr>attackTimer := Some t0\<rparr>
                  in if now inp - t0 > 2000
                     then (let a = atan2 (p_x p + p_width p / 2 - (e_x e + e_width e / 2))
                                         (- (p_y p + p_height p / 2 - (e_y e + e_height e / 2)))
                           in (e1\<lparr>attackTimer := Some (now inp)\<rparr>,
                               [enemyBullet (e_x e + e_width e / 2) (e_y e + e_height e) 6 6 4 1 a]))
                     else (e1, [])))
      else (e\<lparr>e_y := e_y e + e_speed e\<rparr>, []))"

definition updateEnemies :: "Input \<Rightarrow> World \<Rightarrow> World" where
  "updateEnemies inp w =
     (let rs = map (updateEnemy inp (player w)) (enemies w)
      in w\<lparr>enemies := map fst rs, bullets := bullets w @ concat (map snd rs)\<rparr>)"

definition escapedEnemies :: "World \<Rightarrow> World" where
  "escapedEnemies w =
     (let escaped = filter (\<lambda>e. e_y e > CANVAS_HEIGHT) (enemies w)
      in if length escaped > 0
         then w\<lparr>score := max 0 (score w - 50 * int (length escaped)),
                enemies := filter (\<lambda>e. e_y e \<le> CANVAS_HEIGHT) (enemies w)\<rparr>
         else w)"

subsection \<open>6. Power-ups\<close>

definition updatePowerUps :: "Input \<Rightarrow> World \<Rightarrow> nat \<Rightarrow> World \<times> nat" where
  "updatePowerUps inp w k =
     (let (w1, k1) =
            (if now inp - lastPowerUpSpawn w > 15000
             then (w\<lparr>powerUps := powerUps w @
                       [\<lparr>pu_id = Random_id,
                         pu_x = rand inp (k + 1) * (CANVAS_WIDTH - POWERUP_SIZE),
                         pu_y = - POWERUP_SIZE,
                         pu_width = POWERUP_SIZE,
                         pu_height = POWERUP_SIZE,
                         pu_speed = 2,
                         pu_type = (if rand inp k > 0.5 then TRIPLE_SHOT else SHIELD)\<rparr>],
                     lastPowerUpSpawn := now inp\<rparr>, k + 2)
             else (w, k))
      in (w1\<lparr>powerUps := filter (\<lambda>p. pu_y p < CANVAS_HEIGHT)
                            (map (\<lambda>p. p\<lparr>pu_y := pu_y p + pu_speed p\<rparr>) (powerUps w1))\<rparr>, k1))"

subsection \<open>7. Collision detection\<close>

text \<open>The bounding-box test of a bullet against an enemy or a boss.\<close>

definition hits :: "Bullet \<Rightarrow> Enemy \<Rightarrow> bool" where
  "hits b e =
     (b_x b < e_x e + e_width e \<and> b_x b + b_width b > e_x e \<and>
      b_y b < e_y e + e_height e \<and> b_y b + b_height b > e_y e)"

text \<open>
  One bullet against the bosses, in list order. The bullet is the same object
  throughout, so after a hit the remaining bosses are tested against its new
  position \<open>y = -100\<close>.
\<close>

fun bulletVsBosses :: "Bullet \<Rightarrow> Enemy list \<Rightarrow> int \<Rightarrow> Bullet \<times> Enemy list \<times> int" where
  "bulletVsBosses b [] sc = (b, [], sc)"
| "bulletVsBosses b (e # es) sc =
     (if hits b e
      then (let e1 = e\<lparr>e_health := e_health e - damage b\<rparr>;
                b1 = b\<lparr>b_y := - 100\<rparr>;
                (e2, sc1) = (if e_health e1 \<le> 0
                             then (e1\<lparr>e_id := Dead_id\<rparr>, sc + scoreValue e1)
                             else (e1, sc));
                (b2, es2, sc2) = bulletVsBosses b1 es sc1
            in (b2, e2 # es2, sc2))
      else (let (b2, es2, sc2) = bulletVsBosses b es sc
            in (b2, e # es2, sc2)))"




text \<open>The level-up check made after a regular enemy is killed.\<close>

definition levelUpCheck :: "World \<Rightarrow> World" where
  "levelUpCheck w =
     (if bosses w = []
      then (if score w \<ge> level w * 2000
            then (let nextLevel = level w + 1;
                      w1 = (if nextLevel mod 2 = 0 \<and> nextLevel > lastLevelHealed w
                            then (if health w < PLAYER_MAX_HEALTH
                                  then w\<lparr>health := health w + 1\<rparr>
                                  else w)\<lparr>lastLevelHealed := nextLevel\<rparr>
                            else w)
                  in w1\<lparr>level := nextLevel\<rparr>)
            else w)
      else w)"

text \<open>
  One bullet against the regular enemies. The world carries score, level, health and
  the bosses; its \<open>enemies\<close> field is written back by the caller.
\<close>

fun bulletVsEnemies :: "Bullet \<Rightarrow> Enemy list \<Rightarrow> World \<Rightarrow> Bullet \<times> Enemy list \<times> World" where
  "bulletVsEnemies b [] w = (b, [], w)"
| "bulletVsEnemies b (e # es) w =
     (if hits b e
      then (let e1 = e\<lparr>e_health := e_health e - damage b\<rparr>;
                b1 = b\<lparr>b_y := - 100\<rparr>;
                w1 = (if e_health e1 \<le> 0
                      then levelUpCheck (w\<lparr>score := score w + scoreValue e1\<rparr>)
                      else w);
                (b2, es2, w2) = bulletVsEnemies b1 es w1
            in (b2, e1 # es2, w2))
      else (let (b2, es2, w2) = bulletVsEnemies b es w
            in (b2, e # es2, w2)))"

definition collideBullet :: "Bullet \<Rightarrow> World \<Rightarrow> Bullet \<times> World" where
  "collideBullet b w =
     (let (b1, bosses1, sc1) = bulletVsBosses b (bosses w) (score w);
          w1 = w\<lparr>bosses := bosses1, score := sc1\<rparr>;
          (b2, enemies2, w2) = bulletVsEnemies b1 (enemies w1) w1
      in (b2, w2\<lparr>enemies := enemies2\<rparr>))"

fun collideBullets :: "Bullet list \<Rightarrow> World \<Rightarrow> Bullet list \<times> World" where
  "collideBullets [] w = ([], w)"
| "collideBullets (b # bs) w =
     (let (b', w1) = collideBullet b w;
          (bs', w2) = collideBullets bs w1
      in (b' # bs', w2))"

definition bulletCollisions :: "World \<Rightarrow> World" where
  "bulletCollisions w =
     (let (bs, w1) = collideBullets (bullets w) w
      in w1\<lparr>bullets := bs, enemies := filter (\<lambda>e. e_health e > 0) (enemies w1)\<rparr>)"

definition cleanupDeadBosses :: "World \<Rightarrow> World" where
  "cleanupDeadBosses w =
     (let deadBosses = filter (\<lambda>b. e_id b = Dead_id) (bosses w)
      in if length deadBosses > 0
         then (let w1 = w\<lparr>bosses := filter (\<lambda>b. e_id b \<noteq> Dead_id) (bosses w)\<rparr>
               in if bosses w1 = [] then w1\<lparr>level := level w1 + 1\<rparr> else w1)
         else w)"

text \<open>
  Player against enemy bullets, bosses and enemies. The three loops share one block:
  shield or health, then the invincibility flag and its timer.
\<close>

definition takeHit :: "real \<Rightarrow> World \<Rightarrow> World" where
  "takeHit t w =
     (let w1 = (if shieldActive (player w)
                then w\<lparr>player := (player w)\<lparr>shieldActive := False\<rparr>\<rparr>
                else w\<lparr>health := health w - 1\<rparr>)
      in w1\<lparr>player := (player w1)\<lparr>invincible := True, invincibleTimer := t\<rparr>\<rparr>)"

definition touches :: "Player \<Rightarrow> real \<Rightarrow> real \<Rightarrow> real \<Rightarrow> real \<Rightarrow> bool" where
  "touches p ox oy ow oh =
     (p_x p < ox + ow \<and> p_x p + p_width p > ox \<and> p_y p < oy + oh \<and> p_y p + p_height p > oy)"

definition bulletTouches :: "Player \<Rightarrow> Bullet \<Rightarrow> bool" where
  "bulletTouches p b = (isEnemy b \<and> touches p (b_x b) (b_y b) (b_width b) (b_height b))"

definition enemyTouches :: "Player \<Rightarrow> Enemy \<Rightarrow> bool" where
  "enemyTouches p e = touches p (e_x e) (e_y e) (e_width e) (e_height e)"

fun playerVsBullets :: "real \<Rightarrow> Bullet list \<Rightarrow> World \<Rightarrow> Bullet list \<times> World" where
  "playerVsBullets t [] w = ([], w)"
| "playerVsBullets t (b # bs) w =
     (if bulletTouches (player w) b
      then (let (bs', w') = playerVsBullets t bs (takeHit t w)
            in (b\<lparr>b_y := CANVAS_HEIGHT + 100\<rparr> # bs', w'))
      else (let (bs', w') = playerVsBullets t bs w
            in (b # bs', w')))"

fun playerVsBosses :: "real \<Rightarrow> Enemy list \<Rightarrow> World \<Rightarrow> World" where
  "playerVsBosses t [] w = w"
| "playerVsBosses t (e # es) w =
     (if enemyTouches (player w) e
      then playerVsBosses t es (takeHit t w)
      else playerVsBosses t es w)"

fun playerVsEnemies :: "real \<Rightarrow> Enemy list \<Rightarrow> World \<Rightarrow> Enemy list \<times> World" where
  "playerVsEnemies t [] w = ([], w)"
| "playerVsEnemies t (e # es) w =
     (if enemyTouches (player w) e
      then (let (es', w') = playerVsEnemies t es (takeHit t w)
            in (e\<lparr>e_health := 0\<rparr> # es', w'))
      else (let (es', w') = playerVsEnemies t es w
            in (e # es', w')))"

definition playerCollisions :: "Input \<Rightarrow> World \<Rightarrow> World" where
  "playerCollisions inp w =
     (if \<not> invincible (player w)
      then (let (bs, w1) = playerVsBullets (now inp) (bullets w) w;
                w2 = playerVsBosses (now inp) (bosses w1) (w1\<lparr>bullets := bs\<rparr>);
                (es, w3) = playerVsEnemies (now inp) (enemies w2) w2
            in w3\<lparr>enemies := es\<rparr>)
      else w)"

text \<open>
  The collisions that the three loops of \<open>playerCollisions\<close> resolve when the player
  is not invincible: the player's box does not move during the loops, so they can be
  counted beforehand.
\<close>

definition qualifyingHits :: "World \<Rightarrow> nat" where
  "qualifyingHits w =
     length (filter (bulletTouches (player w)) (bullets w))
     + length (filter (enemyTouches (player w)) (bosses w))
     + length (filter (enemyTouches (player w)) (enemies w))"

fun playerVsPowerUps :: "real \<Rightarrow> PowerUp list \<Rightarrow> Player \<Rightarrow> PowerUp list \<times> Player" where
  "playerVsPowerUps t [] pl = ([], pl)"
| "playerVsPowerUps t (p # ps) pl =
     (if touches pl (pu_x p) (pu_y p) (pu_width p) (pu_height p)
      then (let pl1 = (if pu_type p = SHIELD
                       then pl\<lparr>shieldActive := True\<rparr>
                       else pl\<lparr>activePowerUp := Some (pu_type p), powerUpTimer := t\<rparr>);
                (ps', pl') = playerVsPowerUps t ps pl1
            in (p\<lparr>pu_y := CANVAS_HEIGHT + 100\<rparr> # ps', pl'))
      else (let (ps', pl') = playerVsPowerUps t ps pl
            in (p # ps', pl')))"

definition powerUpCollisions :: "Input \<Rightarrow> World \<Rightarrow> World" where
  "powerUpCollisions inp w =
     (let (ps, pl) = playerVsPowerUps (now inp) (powerUps w) (player w)
      in w\<lparr>powerUps := ps, player := pl\<rparr>)"

subsection \<open>8. Timers\<close>

definition updateTimers :: "Input \<Rightarrow> World \<Rightarrow> World" where
  "updateTimers inp w =
     (let p = player w;
          p1 = (if invincible p \<and> now inp - invincibleTimer p > 2000
                then p\<lparr>invincible := False\<rparr> else p);
          p2 = (if activePowerUp p1 \<noteq> None \<and> now inp - powerUpTimer p1 > POWERUP_DURATION
                then p1\<lparr>activePowerUp := None\<rparr> else p1)
      in w\<lparr>player := p2\<rparr>)"

subsection \<open>The whole tick\<close>

text \<open>Steps 1 to 5 of \<open>update\<close>, up to the movement of the regular enemies.\<close>

definition moveEntities :: "Input \<Rightarrow> World \<Rightarrow> World \<times> nat" where
  "moveEntities inp w =
     (let w1 = handleMovement inp w;
          w2 = handleShooting inp w1;
          w3 = updateBullets w2;
          (w4, k1) = updateBosses inp w3 0;
          w5 = bossSpawning inp w4;
          (w6, isEntering) = bossEntrance inp w5;
          (w7, k2) = spawnEnemies inp isEntering w6 k1
      in (updateEnemies inp w7, k2))"

text \<open>Everything before collision detection: then the escape check and step 6.\<close>

definition advance :: "Input \<Rightarrow> World \<Rightarrow> World" where
  "advance inp w =
     (let (w8, k2) = moveEntities inp w;
          w9 = escapedEnemies w8
      in fst (updatePowerUps inp w9 k2))"

text \<open>The world as the player's own collision checks find it.\<close>

definition preContact :: "Input \<Rightarrow> World \<Rightarrow> World" where
  "preContact inp w = cleanupDeadBosses (bulletCollisions (advance inp w))"

definition update :: "Input \<Rightarrow> World \<Rightarrow> World" where
  "update inp w =
     (if gameState w \<noteq> PLAYING then w
      else updateTimers inp (powerUpCollisions inp (playerCollisions inp (preContact inp w))))"

text \<open>Successive animation frames: one call of \<open>update\<close> per input, oldest first.\<close>

definition run :: "Input list \<Rightarrow> World \<Rightarrow> World" where
  "run inps w = foldl (\<lambda>s inp. update inp s) w inps"

text \<open>
  No boss encounter is under way at level \<open>L\<close>: no boss, no warning, no pending
  callback.
\<close>

definition bossIdle :: "int \<Rightarrow> World \<Rightarrow> bool" where
  "bossIdle L w =
     (gameState w = PLAYING \<and> \<not> bossWarningActive w \<and> bosses w = []
      \<and> level w = L \<and> timeouts w = [])"

text \<open>
  The boss warning is running: the flag is set, the callbacks \<open>ts\<close> are pending, and
  the world holds no boss and no regular enemy at level \<open>L\<close>.
\<close>

definition awaitingBoss :: "int \<Rightarrow> Timeout list \<Rightarrow> World \<Rightarrow> bool" where
  "awaitingBoss L ts w =
     (gameState w = PLAYING \<and> bossWarningActive w \<and> bosses w = [] \<and> enemies w = []
      \<and> level w = L \<and> timeouts w = ts)"

section \<open>Changes of the gameState prop\<close>

text \<open>
  The two effects that depend on \<open>gameState\<close>, in the order the component declares
  them; React runs them when the prop changes. The prop is set by App: to PLAYING by
  the start button, between PLAYING and PAUSED by the pause button, to START from the
  menus, and to GAMEOVER by \<open>handleHealthUpdate\<close> when the reported health is 0 or
  less.
\<close>

definition resetEffect :: "World \<Rightarrow> World" where
  "resetEffect w =
     (let w1 = (if gameState w = PLAYING \<and> prevGameState w \<noteq> PLAYING
                then w\<lparr>score := 0,
                       level := 1,
                       health := PLAYER_MAX_HEALTH,
                       lastLevelHealed := 1,
                       enemies := [],
                       bullets := [],
                       powerUps := [],
                       bosses := [],
                       bossWarningActive := False,
                       player := (player w)\<lparr>p_x := CANVAS_WIDTH / 2 - PLAYER_SIZE / 2,
                                            p_y := CANVAS_HEIGHT - 100,
                                            p_health := PLAYER_MAX_HEALTH,
                                            shieldActive := False,
                                            invincible := False,
                                            activePowerUp := None\<rparr>\<rparr>
                else w)
      in w1\<lparr>prevGameState := gameState w1\<rparr>)"

definition clearEffect :: "World \<Rightarrow> World" where
  "clearEffect w =
     (if gameState w = PAUSED \<or> gameState w = GAMEOVER \<or> gameState w = START
      then w\<lparr>enemies := [], bullets := [], powerUps := [], bosses := []\<rparr>
      else w)"

definition setGameState :: "GameState \<Rightarrow> World \<Rightarrow> World" where
  "setGameState g w =
     (if g = gameState w then w
      else clearEffect (resetEffect (w\<lparr>gameState := g\<rparr>)))"

text \<open>The state the refs are created with.\<close>

definition initialPlayer :: Player where
  "initialPlayer =
     \<lparr>p_id = Player_id,
      p_x = CANVAS_WIDTH / 2 - PLAYER_SIZE / 2,
      p_y = CANVAS_HEIGHT - 100,
      p_width = PLAYER_SIZE,
      p_height = PLAYER_SIZE,
      p_speed = PLAYER_SPEED,
      p_health = PLAYER_MAX_HEALTH,
      p_maxHealth = PLAYER_MAX_HEALTH,
      shieldActive = False,
      invincible = False,
      invincibleTimer = 0,
      powerUpTimer = 0,
      activePowerUp = None\<rparr>"

definition initialWorld :: World where
  "initialWorld =
     \<lparr>gameState = START,
      prevGameState = START,
      score = 0,
      level = 1,
      health = PLAYER_MAX_HEALTH,
      lastEnemySpawn = 0,
      lastPowerUpSpawn = 0,
      lastShot = 0,
      lastLevelHealed = 1,
      bossWarningActive = False,
      bossEntranceTimer = 0,
      player = initialPlayer,
      enemies = [],
      bullets = [],
      powerUps = [],
      bosses = [],
      timeouts = []\<rparr>"

section \<open>Concrete worlds and inputs\<close>

text \<open>
  Small worlds on which the theorems below are exercised. All of them are in the
  PLAYING state with the spawn, power-up and shot timers just reset, so that a tick
  at \<open>now = 100016\<close> spawns nothing and fires nothing unless said otherwise.
\<close>

definition quietWorld :: World where
  "quietWorld =
     initialWorld\<lparr>gameState := PLAYING, prevGameState := PLAYING,
                  lastEnemySpawn := 100000, lastPowerUpSpawn := 100000, lastShot := 100000\<rparr>"

definition quietInput :: Input where
  "quietInput = \<lparr>now = 100016, touch = None, keys = {}, rand = (\<lambda>_. 0)\<rparr>"

definition basicEnemy :: "real \<Rightarrow> real \<Rightarrow> Enemy" where
  "basicEnemy ex ey =
     \<lparr>e_id = Random_id, e_x = ex, e_y = ey, e_width = 40, e_height = 40, e_speed = 2.8,
      e_type = BASIC, e_health = 1, e_maxHealth = 1, scoreValue = 100, isBoss = False,
      attackTimer = Some 0\<rparr>"

text \<open>Two enemies one step above the bottom edge, one in mid-field; score 70.\<close>

definition escapeWorld :: World where
  "escapeWorld =
     quietWorld\<lparr>score := 70,
                enemies := [basicEnemy 100 899, basicEnemy 300 899, basicEnemy 100 300]\<rparr>"

text \<open>
  Score 70, one enemy one step above the bottom edge, and one enemy in mid-field with
  a player bullet that the tick moves into its box.
\<close>

definition escapeAndKillWorld :: World where
  "escapeAndKillWorld =
     quietWorld\<lparr>score := 70,
                enemies := [basicEnemy 100 899, basicEnemy 380 300],
                bullets := [playerBullet 386 330 0]\<rparr>"

text \<open>The fire key held, 216ms after the last shot, at levels 24 and 25.\<close>

definition fireInput :: Input where
  "fireInput = quietInput\<lparr>keys := {''Space''}\<rparr>"

definition level24World :: World where
  "level24World = quietWorld\<lparr>level := 24, lastShot := 99800\<rparr>"

definition level25World :: World where
  "level25World = quietWorld\<lparr>level := 25, lastShot := 99800\<rparr>"

text \<open>Levels 30 and 29, 150ms after the last shot.\<close>

definition level30World :: World where
  "level30World = quietWorld\<lparr>level := 30, lastShot := 99866\<rparr>"

definition level29World :: World where
  "level29World = quietWorld\<lparr>level := 29, lastShot := 99866\<rparr>"

text \<open>
  The player (at 375, 800, 50 wide and high) with the shield up, and one enemy bullet
  inside its box.
\<close>

definition shieldWorld :: World where
  "shieldWorld =
     quietWorld\<lparr>player := initialPlayer\<lparr>shieldActive := True\<rparr>,
                bullets := [enemyBullet 390 810 8 8 4 1 0]\<rparr>"

text \<open>
  One health left, no shield, not invincible, and two enemy bullets (angle 0, speed 4)
  that the tick moves into the player's box.
\<close>

definition lastHealthWorld :: World where
  "lastHealthWorld =
     quietWorld\<lparr>health := 1,
                bullets := [enemyBullet 390 806 8 8 4 1 0, enemyBullet 400 806 8 8 4 1 0]\<rparr>"

text \<open>
  Full health, and in the same tick an enemy bullet and a regular enemy both reach the
  player's box.
\<close>

definition bulletAndEnemyWorld :: World where
  "bulletAndEnemyWorld =
     quietWorld\<lparr>bullets := [enemyBullet 378 806 8 8 4 1 0],
                enemies := [basicEnemy 400 790]\<rparr>"

text \<open>
  Level 6 with score 10000: an enemy with 1 health left and the two bullets of a double
  shot (26 apart) below it, both of which the tick moves into its box.
\<close>

definition doubleShotWorld :: World where
  "doubleShotWorld =
     quietWorld\<lparr>level := 6, score := 10000, lastLevelHealed := 6,
                enemies := [basicEnemy 380 300],
                bullets := [playerBullet 386 330 0, playerBullet 412 330 0]\<rparr>"

text \<open>An invincible player (hit 16ms ago) and an enemy that moves into its box.\<close>

definition invincibleWorld :: World where
  "invincibleWorld =
     quietWorld\<lparr>player := initialPlayer\<lparr>invincible := True, invincibleTimer := 100000\<rparr>,
                enemies := [basicEnemy 380 790]\<rparr>"

text \<open>
  Level 5 reached with no boss present, with a regular enemy, a player bullet and a
  power-up in the field.
\<close>

definition pauseWorld :: World where
  "pauseWorld =
     quietWorld\<lparr>level := 5, score := 8000,
                enemies := [basicEnemy 100 300],
                bullets := [playerBullet 600 500 0],
                powerUps := [\<lparr>pu_id = Random_id, pu_x = 200, pu_y = 100, pu_width = 30,
                              pu_height = 30, pu_speed = 2, pu_type = SHIELD\<rparr>]\<rparr>"

text \<open>Boss levels reached with no boss present and no warning running.\<close>

definition level5World :: World where
  "level5World = quietWorld\<lparr>level := 5, score := 8000, enemies := [basicEnemy 100 300]\<rparr>"

definition level20World :: World where
  "level20World = quietWorld\<lparr>level := 20, score := 38000, enemies := [basicEnemy 100 300]\<rparr>"

definition laterInput :: Input where
  "laterInput = quietInput\<lparr>now := 100032\<rparr>"







section \<open>Evaluating the tick on a concrete world\<close>

lemmas tick_defs =
  update_def preContact_def advance_def moveEntities_def handleMovement_def movePlayer_def
  clampPlayer_def handleShooting_def fires_def shotInterval_def updateBullets_def
  moveBullet_def bulletOnScreen_def updateBosses_def bossSpawning_def bossLevels_def
  bossEntrance_def spawnEnemies_def updateEnemies_def updateEnemy_def escapedEnemies_def
  updatePowerUps_def bulletCollisions_def collideBullet_def cleanupDeadBosses_def
  playerCollisions_def takeHit_def bulletTouches_def touches_def enemyTouches_def
  powerUpCollisions_def updateTimers_def hits_def levelUpCheck_def

lemmas const_defs =
  CANVAS_WIDTH_def CANVAS_HEIGHT_def PLAYER_SIZE_def PLAYER_SPEED_def PLAYER_MAX_HEALTH_def
  POWERUP_DURATION_def POWERUP_SIZE_def BULLET_WIDTH_def BULLET_HEIGHT_def BULLET_SPEED_def

lemmas world_defs =
  quietWorld_def quietInput_def initialWorld_def initialPlayer_def basicEnemy_def
  enemyBullet_def playerBullet_def

section \<open>What the movement steps leave alone\<close>

lemma updateBosses_score: "score (fst (updateBosses inp w k)) = score w"
  by (simp add: updateBosses_def Let_def split_def)

lemma bossSpawning_score: "score (bossSpawning inp w) = score w"
  by (simp add: bossSpawning_def split: option.splits)

lemma bossEntrance_score: "score (fst (bossEntrance inp w)) = score w"
  by (simp add: bossEntrance_def)

lemma spawnEnemies_score: "score (fst (spawnEnemies inp e w k)) = score w"
  by (simp add: spawnEnemies_def Let_def)

lemma moveEntities_score: "score (fst (moveEntities inp w)) = score w"
  by (simp add: moveEntities_def Let_def split_def updateEnemies_def spawnEnemies_score
      bossEntrance_score bossSpawning_score updateBosses_score updateBullets_def
      handleShooting_def handleMovement_def)

lemma updatePowerUps_score: "score (fst (updatePowerUps inp w k)) = score w"
  by (simp add: updatePowerUps_def Let_def split_def)

lemma updatePowerUps_enemies: "enemies (fst (updatePowerUps inp w k)) = enemies w"
  by (simp add: updatePowerUps_def Let_def split_def)

lemma advance_unfold:
  "advance inp w =
     fst (updatePowerUps inp (escapedEnemies (fst (moveEntities inp w))) (snd (moveEntities inp w)))"
  by (simp add: advance_def split_def Let_def)

section \<open>Escape penalty\<close>

lemma escapedEnemies_score:
  assumes "filter (\<lambda>e. e_y e > CANVAS_HEIGHT) (enemies w) \<noteq> []"
  shows "score (escapedEnemies w) =
           max 0 (score w - 50 * int (length (filter (\<lambda>e. e_y e > CANVAS_HEIGHT) (enemies w))))"
  using assms by (simp add: escapedEnemies_def Let_def)

lemma escapedEnemies_enemies:
  "enemies (escapedEnemies w) = filter (\<lambda>e. \<not> e_y e > CANVAS_HEIGHT) (enemies w)"
  by (simp add: escapedEnemies_def Let_def not_less filter_empty_conv)

text \<open>
  C10, as the code has it. In a tick in which \<open>N \<ge> 1\<close> regular enemies have moved
  past the bottom of the field, the escape check lowers the score by exactly
  \<open>min score (50 * N)\<close>, the score is not negative after it, and exactly those \<open>N\<close>
  enemies leave the enemy list. (The enemies are counted where the code counts them:
  after they have moved in this tick. The statement is about the tick up to collision
  detection; the kills of the collision pass that follows add to the score and remove
  further enemies.)
\<close>

theorem escape_penalty:
  assumes N: "N = length (filter (\<lambda>e. e_y e > CANVAS_HEIGHT) (enemies (fst (moveEntities inp w))))"
    and pos: "N \<ge> 1"
  shows "score w - score (advance inp w) = min (score w) (50 * int N)
       \<and> 0 \<le> score (advance inp w)
       \<and> enemies (advance inp w) =
           filter (\<lambda>e. \<not> e_y e > CANVAS_HEIGHT) (enemies (fst (moveEntities inp w)))
       \<and> length (enemies (advance inp w)) + N = length (enemies (fst (moveEntities inp w)))"
proof -
  let ?w8 = "fst (moveEntities inp w)"
  let ?esc = "filter (\<lambda>e. e_y e > CANVAS_HEIGHT) (enemies ?w8)"
  from N pos have ne: "?esc \<noteq> []" by auto
  have sc: "score (advance inp w) = max 0 (score w - 50 * int N)"
    by (simp add: advance_unfold updatePowerUps_score escapedEnemies_score[OF ne] N
        moveEntities_score)
  have en: "enemies (advance inp w) = filter (\<lambda>e. \<not> e_y e > CANVAS_HEIGHT) (enemies ?w8)"
    by (simp add: advance_unfold updatePowerUps_enemies escapedEnemies_enemies)
  have len: "length (enemies (advance inp w)) + N = length (enemies ?w8)"
    unfolding en N
    using sum_length_filter_compl[of "\<lambda>e. e_y e > CANVAS_HEIGHT" "enemies ?w8"] by simp
  from sc have "score w - score (advance inp w) = min (score w) (50 * int N)" by simp
  moreover from sc have "0 \<le> score (advance inp w)" by simp
  ultimately show ?thesis using en len by simp
qed

lemma escapeWorld_moved:
  "enemies (fst (moveEntities quietInput escapeWorld)) =
     [basicEnemy 100 901.8, basicEnemy 300 901.8, basicEnemy 100 302.8]"
  by (simp add: escapeWorld_def world_defs tick_defs const_defs)

theorem escape_penalty_witness:
  "score escapeWorld = 70 \<and> score (advance quietInput escapeWorld) = 0
   \<and> enemies (advance quietInput escapeWorld) = [basicEnemy 100 302.8]"
  using escape_penalty[of 2 quietInput escapeWorld]
  by (simp add: escapeWorld_moved basicEnemy_def CANVAS_HEIGHT_def)
     (simp add: escapeWorld_def world_defs)

text \<open>
  Over the whole tick the claim as stated fails: one enemy escapes and the collision
  pass of the same tick kills another, so the score goes from 70 to 120 instead of
  down by \<open>min 70 50\<close>, and two enemies leave the list.
\<close>

theorem escape_and_kill_counterexample:
  "gameState escapeAndKillWorld = PLAYING
   \<and> score escapeAndKillWorld = 70
   \<and> length (enemies escapeAndKillWorld) = 2
   \<and> length (filter (\<lambda>e. e_y e > CANVAS_HEIGHT)
         (enemies (fst (moveEntities quietInput escapeAndKillWorld)))) = 1
   \<and> score (advance quietInput escapeAndKillWorld) = 20
   \<and> score (update quietInput escapeAndKillWorld) = 120
   \<and> enemies (update quietInput escapeAndKillWorld) = []"
  by (simp add: escapeAndKillWorld_def world_defs tick_defs const_defs)

section \<open>Weapon tiers and the fire gate\<close>

lemma shotBullets_triple:
  assumes "activePowerUp (player w) = Some TRIPLE_SHOT \<or> (15 \<le> level w \<and> level w < 25)"
  shows "map angle (shotBullets w) = [0, - 0.2, 0.2]"
  using assms by (auto simp: shotBullets_def Let_def playerBullet_def)

lemma upto_minus1_2: "[- 1 .. 2] = [- 1, 0, 1, 2 :: int]"
  by (simp add: upto_rec1)

lemma shotBullets_penta:
  assumes "activePowerUp (player w) \<noteq> Some TRIPLE_SHOT" and "25 \<le> level w"
  shows "map angle (shotBullets w) = [- 0.3, - 0.15, 0, 0.15, 0.3]"
  using assms by (simp add: shotBullets_def Let_def playerBullet_def upto_minus1_2)

text \<open>
  C8. The shooting step fires exactly when the fire input is asserted (the Space key
  or an active pointer) and more than 200ms, or from level 30 on more than 120ms, have
  passed since the previous shot; a shot appends its bullets and records its time,
  and without a shot the step changes nothing. With no TRIPLE_SHOT power-up active,
  a shot at level 24 is exactly 3 bullets at the angles 0, -0.2, 0.2 and a shot at
  level 25 or more is exactly 5 bullets at the angles -0.3, -0.15, 0, 0.15, 0.3.
\<close>

theorem weapon_tiers:
  "(fires inp w \<longleftrightarrow>
      (''Space'' \<in> keys inp \<or> touch inp \<noteq> None)
      \<and> now inp - lastShot w > (if level w \<ge> 30 then 120 else 200))
   \<and> (fires inp w \<longrightarrow>
      bullets (handleShooting inp w) = bullets w @ shotBullets w
      \<and> lastShot (handleShooting inp w) = now inp
      \<and> now inp - lastShot w > (if level w \<ge> 30 then 120 else 200))
   \<and> (\<not> fires inp w \<longrightarrow> handleShooting inp w = w)
   \<and> (now inp - lastShot w \<le> (if level w \<ge> 30 then 120 else 200) \<longrightarrow>
        handleShooting inp w = w)
   \<and> (activePowerUp (player w) \<noteq> Some TRIPLE_SHOT \<and> level w = 24 \<longrightarrow>
        length (shotBullets w) = 3 \<and> map angle (shotBullets w) = [0, - 0.2, 0.2])
   \<and> (activePowerUp (player w) \<noteq> Some TRIPLE_SHOT \<and> level w \<ge> 25 \<longrightarrow>
        length (shotBullets w) = 5
        \<and> map angle (shotBullets w) = [- 0.3, - 0.15, 0, 0.15, 0.3])"
proof -
  have gate: "fires inp w \<longleftrightarrow>
      (''Space'' \<in> keys inp \<or> touch inp \<noteq> None)
      \<and> now inp - lastShot w > (if level w \<ge> 30 then 120 else 200)"
    by (simp add: fires_def shotInterval_def)
  have shot: "fires inp w \<Longrightarrow>
      bullets (handleShooting inp w) = bullets w @ shotBullets w
      \<and> lastShot (handleShooting inp w) = now inp"
    by (simp add: handleShooting_def)
  have idle: "\<not> fires inp w \<Longrightarrow> handleShooting inp w = w"
    by (simp add: handleShooting_def)
  have closed: "now inp - lastShot w \<le> (if level w \<ge> 30 then 120 else 200) \<Longrightarrow>
      handleShooting inp w = w"
    using gate idle by auto
  have l3: "level w = 24 \<Longrightarrow> map angle (shotBullets w) = [0, - 0.2, 0.2]"
    using shotBullets_triple[of w] by simp
  have l5: "activePowerUp (player w) \<noteq> Some TRIPLE_SHOT \<Longrightarrow> level w \<ge> 25 \<Longrightarrow>
      map angle (shotBullets w) = [- 0.3, - 0.15, 0, 0.15, 0.3]"
    by (rule shotBullets_penta)
  have n3: "level w = 24 \<Longrightarrow> length (shotBullets w) = 3"
    using l3 arg_cong[of "map angle (shotBullets w)" _ length] by fastforce
  have n5: "activePowerUp (player w) \<noteq> Some TRIPLE_SHOT \<Longrightarrow> level w \<ge> 25 \<Longrightarrow>
      length (shotBullets w) = 5"
    using l5 arg_cong[of "map angle (shotBullets w)" _ length] by fastforce
  show ?thesis
    using gate shot idle closed l3 l5 n3 n5 by blast
qed

theorem weapon_tiers_witness:
  "fires fireInput level24World
   \<and> map angle (bullets (handleShooting fireInput level24World)) = [0, - 0.2, 0.2]
   \<and> fires fireInput level25World
   \<and> map angle (bullets (handleShooting fireInput level25World)) = [- 0.3, - 0.15, 0, 0.15, 0.3]
   \<and> handleShooting fireInput (level24World\<lparr>lastShot := 99816\<rparr>) = level24World\<lparr>lastShot := 99816\<rparr>
   \<and> now fireInput - lastShot level30World = 150
   \<and> fires fireInput level30World
   \<and> length (bullets (handleShooting fireInput level30World)) = 5
   \<and> lastShot (handleShooting fireInput level30World) = 100016
   \<and> now fireInput - lastShot level29World = 150
   \<and> \<not> fires fireInput level29World
   \<and> handleShooting fireInput level29World = level29World
   \<and> \<not> fires quietInput level30World"
proof -
  have k: "''Space'' \<in> keys fireInput" "''Space'' \<notin> keys quietInput" "touch quietInput = None"
    by (simp_all add: fireInput_def quietInput_def)
  have t: "now fireInput - lastShot level30World = 150" "level level30World = 30"
    "now fireInput - lastShot level29World = 150" "level level29World = 29"
    "activePowerUp (player level30World) = None" "bullets level30World = []"
    "now fireInput = 100016"
    by (simp_all add: fireInput_def level30World_def level29World_def world_defs)
  have a: "fires fireInput level24World
     \<and> map angle (bullets (handleShooting fireInput level24World)) = [0, - 0.2, 0.2]
     \<and> fires fireInput level25World
     \<and> map angle (bullets (handleShooting fireInput level25World)) = [- 0.3, - 0.15, 0, 0.15, 0.3]
     \<and> handleShooting fireInput (level24World\<lparr>lastShot := 99816\<rparr>) = level24World\<lparr>lastShot := 99816\<rparr>"
    using weapon_tiers[of fireInput level24World] weapon_tiers[of fireInput level25World]
      weapon_tiers[of fireInput "level24World\<lparr>lastShot := 99816\<rparr>"]
    by (simp add: fires_def shotInterval_def level24World_def level25World_def fireInput_def
        world_defs)
  have b: "fires fireInput level30World
     \<and> length (bullets (handleShooting fireInput level30World)) = 5
     \<and> lastShot (handleShooting fireInput level30World) = 100016"
    using weapon_tiers[of fireInput level30World] k t by simp
  have c: "\<not> fires fireInput level29World \<and> handleShooting fireInput level29World = level29World"
    using weapon_tiers[of fireInput level29World] k t by simp
  have d: "\<not> fires quietInput level30World"
    using weapon_tiers[of quietInput level30World] k by simp
  from a b c d t(1,3) show ?thesis by simp
qed

section \<open>The player's collisions as repeated hits\<close>

lemma takeHit_lists [simp]:
  "bullets (takeHit t w) = bullets w"
  "bosses (takeHit t w) = bosses w"
  "enemies (takeHit t w) = enemies w"
  by (simp_all add: takeHit_def Let_def)

lemma takeHit_touches [simp]: "touches (player (takeHit t w)) = touches (player w)"
  by (intro ext) (simp add: takeHit_def Let_def touches_def)

lemma takeHit_bullets_update:
  "takeHit t (w\<lparr>bullets := bs\<rparr>) = (takeHit t w)\<lparr>bullets := bs\<rparr>"
  by (simp add: takeHit_def Let_def)

lemma hits_lists [simp]:
  "bullets ((takeHit t ^^ n) w) = bullets w"
  "bosses ((takeHit t ^^ n) w) = bosses w"
  "enemies ((takeHit t ^^ n) w) = enemies w"
  by (induction n) simp_all

lemma hits_touches [simp]: "touches (player ((takeHit t ^^ n) w)) = touches (player w)"
  by (induction n) simp_all

lemma hits_bullets_update:
  "(takeHit t ^^ n) (w\<lparr>bullets := bs\<rparr>) = ((takeHit t ^^ n) w)\<lparr>bullets := bs\<rparr>"
  by (induction n) (simp_all add: takeHit_bullets_update)

lemma bulletTouches_hits [simp]:
  "bulletTouches (player ((takeHit t ^^ n) w)) = bulletTouches (player w)"
  by (intro ext) (simp add: bulletTouches_def)

lemma enemyTouches_hits [simp]:
  "enemyTouches (player ((takeHit t ^^ n) w)) = enemyTouches (player w)"
  by (intro ext) (simp add: enemyTouches_def)

lemma playerVsBullets_snd:
  "snd (playerVsBullets t bs w) = (takeHit t ^^ length (filter (bulletTouches (player w)) bs)) w"
proof (induction bs arbitrary: w)
  case Nil
  show ?case by simp
next
  case (Cons b bs)
  have step: "bulletTouches (player (takeHit t w)) = bulletTouches (player w)"
    using bulletTouches_hits[where n = 1 and t = t and w = w] by simp
  show ?case
    by (simp add: split_def Cons.IH step funpow_swap1)
qed

lemma playerVsBullets_fst:
  "fst (playerVsBullets t bs w) =
     map (\<lambda>b. if bulletTouches (player w) b then b\<lparr>b_y := CANVAS_HEIGHT + 100\<rparr> else b) bs"
proof (induction bs arbitrary: w)
  case Nil
  show ?case by simp
next
  case (Cons b bs)
  have step: "bulletTouches (player (takeHit t w)) = bulletTouches (player w)"
    using bulletTouches_hits[where n = 1 and t = t and w = w] by simp
  show ?case
    by (simp add: split_def Cons.IH step)
qed

lemma playerVsBosses_eq:
  "playerVsBosses t es w = (takeHit t ^^ length (filter (enemyTouches (player w)) es)) w"
proof (induction es arbitrary: w)
  case Nil
  show ?case by simp
next
  case (Cons e es)
  have step: "enemyTouches (player (takeHit t w)) = enemyTouches (player w)"
    using enemyTouches_hits[where n = 1 and t = t and w = w] by simp
  show ?case
    by (simp add: Cons.IH step funpow_swap1)
qed

lemma playerVsEnemies_snd:
  "snd (playerVsEnemies t es w) = (takeHit t ^^ length (filter (enemyTouches (player w)) es)) w"
proof (induction es arbitrary: w)
  case Nil
  show ?case by simp
next
  case (Cons e es)
  have step: "enemyTouches (player (takeHit t w)) = enemyTouches (player w)"
    using enemyTouches_hits[where n = 1 and t = t and w = w] by simp
  show ?case
    by (simp add: split_def Cons.IH step funpow_swap1)
qed

lemma playerVsEnemies_fst:
  "fst (playerVsEnemies t es w) =
     map (\<lambda>e. if enemyTouches (player w) e then e\<lparr>e_health := 0\<rparr> else e) es"
proof (induction es arbitrary: w)
  case Nil
  show ?case by simp
next
  case (Cons e es)
  have step: "enemyTouches (player (takeHit t w)) = enemyTouches (player w)"
    using enemyTouches_hits[where n = 1 and t = t and w = w] by simp
  show ?case
    by (simp add: split_def Cons.IH step)
qed

text \<open>
  With the player not invincible when the checks start, the three loops amount to one
  hit per overlapping enemy bullet, boss and enemy, whatever the earlier hits did.
\<close>

lemma playerCollisions_eq:
  assumes "\<not> invincible (player w)"
  shows "playerCollisions inp w =
           ((takeHit (now inp) ^^ qualifyingHits w) w)
             \<lparr>bullets := map (\<lambda>b. if bulletTouches (player w) b
                                    then b\<lparr>b_y := CANVAS_HEIGHT + 100\<rparr> else b) (bullets w),
              enemies := map (\<lambda>e. if enemyTouches (player w) e
                                    then e\<lparr>e_health := 0\<rparr> else e) (enemies w)\<rparr>"
  using assms
  by (simp add: playerCollisions_def split_def Let_def playerVsBullets_snd playerVsBullets_fst
      playerVsBosses_eq playerVsEnemies_snd playerVsEnemies_fst hits_bullets_update
      qualifyingHits_def funpow_add add.commute)

lemma takeHit_health:
  "health (takeHit t w) = (if shieldActive (player w) then health w else health w - 1)"
  by (simp add: takeHit_def Let_def)

lemma takeHit_shield: "\<not> shieldActive (player (takeHit t w))"
  by (simp add: takeHit_def Let_def)

lemma hits_health:
  "health ((takeHit t ^^ n) w) =
     health w - (if shieldActive (player w) \<and> 0 < n then int n - 1 else int n)"
proof (induction n arbitrary: w)
  case 0
  show ?case by simp
next
  case (Suc n)
  have "health ((takeHit t ^^ Suc n) w) = health ((takeHit t ^^ n) (takeHit t w))"
    by (simp add: funpow_swap1)
  also have "\<dots> = health (takeHit t w) - int n"
    by (simp add: Suc.IH takeHit_shield)
  finally show ?case by (simp add: takeHit_health)
qed

lemma hits_shield:
  "shieldActive (player ((takeHit t ^^ n) w)) = (shieldActive (player w) \<and> n = 0)"
  by (cases n) (simp_all add: takeHit_shield)

text \<open>
  C5. With the shield up and the player not invincible when the collision checks of a
  tick start, exactly one qualifying hit (enemy bullet, boss or enemy overlapping the
  player) leaves the shield down and the health as it was. The shield absorbs one hit
  only: of \<open>n \<ge> 1\<close> hits the other \<open>n - 1\<close> cost one health each; and a single
  collision either consumes the shield or deducts health, never both.
\<close>

theorem shield_absorbs_one_hit:
  assumes "\<not> invincible (player w)" and "shieldActive (player w)"
    and "qualifyingHits w = n" and "1 \<le> n"
  shows "\<not> shieldActive (player (playerCollisions inp w))
       \<and> health (playerCollisions inp w) = health w - (int n - 1)
       \<and> (if n = 1 then health (playerCollisions inp w) = health w
           else health (playerCollisions inp w) < health w)
       \<and> health (takeHit t w) = health w
       \<and> \<not> shieldActive (player (takeHit t w))
       \<and> health (takeHit t (takeHit t w)) = health w - 1"
  using assms
  by (simp add: playerCollisions_eq hits_health hits_shield takeHit_health takeHit_shield)

theorem shield_absorbs_one_hit_witness:
  "\<not> invincible (player shieldWorld) \<and> shieldActive (player shieldWorld)
   \<and> qualifyingHits shieldWorld = 1
   \<and> \<not> shieldActive (player (playerCollisions quietInput shieldWorld))
   \<and> health (playerCollisions quietInput shieldWorld) = 3"
  using shield_absorbs_one_hit[of shieldWorld 1 quietInput 100016]
  by (simp add: shieldWorld_def qualifyingHits_def bulletTouches_def touches_def world_defs
      const_defs)

section \<open>Several hits in one tick\<close>

text \<open>
  C1. The claim is that health stays within [0, maxHealth] in every tick, whatever
  collisions the tick resolves. The code does not keep the lower bound: with one
  health left and two enemy bullets reaching the player in the same tick, both are
  resolved and the health ends at -1. (The upper bound is \<open>health_upper_bound\<close>
  below.)
\<close>

theorem health_below_zero:
  "gameState lastHealthWorld = PLAYING
   \<and> health lastHealthWorld = 1
   \<and> \<not> invincible (player lastHealthWorld)
   \<and> health (update quietInput lastHealthWorld) = - 1"
  by (simp add: lastHealthWorld_def world_defs tick_defs const_defs)

text \<open>
  C4. The claim is that after a damaging hit no further collision within 2000ms costs
  health, collisions later in the same tick included. In the code a second collision
  resolved in the tick of the hit still costs health: the enemy bullet takes the health
  from 3 to 2 and sets the invincibility flag, and the enemy contact checked after it
  in the same tick takes the health to 1. (Later ticks inside the window are
  \<open>no_loss_while_invincible\<close> below.)
\<close>

theorem second_hit_in_same_tick:
  "gameState bulletAndEnemyWorld = PLAYING
   \<and> health bulletAndEnemyWorld = 3
   \<and> \<not> shieldActive (player bulletAndEnemyWorld)
   \<and> qualifyingHits (preContact quietInput bulletAndEnemyWorld) = 2
   \<and> health (update quietInput bulletAndEnemyWorld) = 1
   \<and> invincible (player (update quietInput bulletAndEnemyWorld))"
  by (simp add: bulletAndEnemyWorld_def qualifyingHits_def world_defs tick_defs const_defs)

text \<open>
  C3. The claim is that the scoreValue of a destroyed enemy or boss is added exactly
  once, even when more bullets hit it in the same pass. In the code an enemy worth 100
  with 1 health left is hit by both bullets of a double shot in one collision pass, and
  the score rises by 200, not by 100.
\<close>

theorem score_awarded_twice:
  "gameState doubleShotWorld = PLAYING
   \<and> score doubleShotWorld = 10000
   \<and> map scoreValue (enemies doubleShotWorld) = [100]
   \<and> map e_health (enemies doubleShotWorld) = [1]
   \<and> score (update quietInput doubleShotWorld) = 10200
   \<and> enemies (update quietInput doubleShotWorld) = []"
  by (simp add: doubleShotWorld_def world_defs tick_defs const_defs)

section \<open>The player and the enemy list through the tick\<close>

lemma updateBosses_player: "player (fst (updateBosses inp w k)) = player w"
  by (simp add: updateBosses_def Let_def split_def)

lemma bossSpawning_player: "player (bossSpawning inp w) = player w"
  by (simp add: bossSpawning_def split: option.splits)

lemma bossEntrance_player: "player (fst (bossEntrance inp w)) = player w"
  by (simp add: bossEntrance_def)

lemma spawnEnemies_player: "player (fst (spawnEnemies inp e w k)) = player w"
  by (simp add: spawnEnemies_def Let_def)

lemma moveEntities_player:
  "player (fst (moveEntities inp w)) = clampPlayer (movePlayer inp (player w))"
  by (simp add: moveEntities_def Let_def split_def updateEnemies_def spawnEnemies_player
      bossEntrance_player bossSpawning_player updateBosses_player updateBullets_def
      handleShooting_def handleMovement_def)

lemma updatePowerUps_player: "player (fst (updatePowerUps inp w k)) = player w"
  by (simp add: updatePowerUps_def Let_def split_def)

lemma escapedEnemies_player: "player (escapedEnemies w) = player w"
  by (simp add: escapedEnemies_def Let_def)

lemma advance_player: "player (advance inp w) = clampPlayer (movePlayer inp (player w))"
  by (simp add: advance_unfold updatePowerUps_player escapedEnemies_player moveEntities_player)

lemma levelUpCheck_player: "player (levelUpCheck w) = player w"
  by (simp add: levelUpCheck_def Let_def)

lemma bulletVsEnemies_player: "player (snd (snd (bulletVsEnemies b es w))) = player w"
  by (induction es arbitrary: b w) (simp_all add: Let_def split_def levelUpCheck_player)

lemma collideBullet_player: "player (snd (collideBullet b w)) = player w"
  by (simp add: collideBullet_def Let_def split_def bulletVsEnemies_player)

lemma collideBullets_player: "player (snd (collideBullets bs w)) = player w"
  by (induction bs arbitrary: w) (simp_all add: Let_def split_def collideBullet_player)

lemma bulletCollisions_player: "player (bulletCollisions w) = player w"
  by (simp add: bulletCollisions_def Let_def split_def collideBullets_player)

lemma cleanupDeadBosses_player: "player (cleanupDeadBosses w) = player w"
  by (simp add: cleanupDeadBosses_def Let_def)

lemma cleanupDeadBosses_enemies: "enemies (cleanupDeadBosses w) = enemies w"
  by (simp add: cleanupDeadBosses_def Let_def)

lemma preContact_player:
  "player (preContact inp w) = clampPlayer (movePlayer inp (player w))"
  by (simp add: preContact_def cleanupDeadBosses_player bulletCollisions_player advance_player)

lemma let_app: "g (Let a f) = Let a (\<lambda>x. g (f x))"
  by simp

lemma movePlayer_invincible: "invincible (movePlayer inp p) = invincible p"
  by (simp add: movePlayer_def if_distrib[of invincible] let_app[of invincible]
      split: option.split prod.split)

lemma movePlayer_shieldActive: "shieldActive (movePlayer inp p) = shieldActive p"
  by (simp add: movePlayer_def if_distrib[of shieldActive] let_app[of shieldActive]
      split: option.split prod.split)

lemma movePlayer_flags:
  "invincible (clampPlayer (movePlayer inp p)) = invincible p"
  "shieldActive (clampPlayer (movePlayer inp p)) = shieldActive p"
  by (simp_all add: clampPlayer_def movePlayer_invincible movePlayer_shieldActive)

lemma preContact_alive: "list_all (\<lambda>e. 0 < e_health e) (enemies (preContact inp w))"
  by (simp add: preContact_def cleanupDeadBosses_enemies bulletCollisions_def split_def Let_def
      list_all_iff)

lemma powerUpCollisions_enemies: "enemies (powerUpCollisions inp w) = enemies w"
  by (simp add: powerUpCollisions_def split_def Let_def)

lemma updateTimers_enemies: "enemies (updateTimers inp w) = enemies w"
  by (simp add: updateTimers_def Let_def)

lemma update_enemies:
  assumes "gameState w = PLAYING"
  shows "enemies (update inp w) = enemies (playerCollisions inp (preContact inp w))"
  using assms by (simp add: update_def updateTimers_enemies powerUpCollisions_enemies)

section \<open>Contact between a regular enemy and the player\<close>

text \<open>
  C6, as the code has it. In a tick, the contact check runs only if the player is not
  invincible: then every regular enemy whose box overlaps the player's has its health
  set to 0, whatever the shield state, and every other enemy is left as it is; the
  enemy stays in the list for the rest of the tick and is dropped by the health filter
  that ends the next bullet collision pass, which leaves only enemies with health
  above 0. If the player is invincible, the contact changes no enemy.
\<close>

theorem contact_destroys_enemy:
  assumes "gameState w = PLAYING"
  shows "(\<not> invincible (player w) \<longrightarrow>
            enemies (update inp w) =
              map (\<lambda>e. if enemyTouches (player (preContact inp w)) e
                        then e\<lparr>e_health := 0\<rparr> else e)
                (enemies (preContact inp w)))
       \<and> (invincible (player w) \<longrightarrow> enemies (update inp w) = enemies (preContact inp w))
       \<and> list_all (\<lambda>e. 0 < e_health e) (enemies (preContact inp' w'))"
proof -
  have inv: "invincible (player (preContact inp w)) = invincible (player w)"
    by (simp add: preContact_player movePlayer_flags)
  have a: "\<not> invincible (player w) \<Longrightarrow>
      enemies (update inp w) =
        map (\<lambda>e. if enemyTouches (player (preContact inp w)) e then e\<lparr>e_health := 0\<rparr> else e)
          (enemies (preContact inp w))"
    using assms inv by (simp add: update_enemies playerCollisions_eq)
  have b: "invincible (player w) \<Longrightarrow> enemies (update inp w) = enemies (preContact inp w)"
    using assms inv by (simp add: update_enemies playerCollisions_def)
  show ?thesis using a b preContact_alive by blast
qed

theorem contact_destroys_enemy_witness:
  "gameState bulletAndEnemyWorld = PLAYING
   \<and> \<not> invincible (player bulletAndEnemyWorld)
   \<and> enemies (preContact quietInput bulletAndEnemyWorld) = [basicEnemy 400 792.8]
   \<and> enemyTouches (player (preContact quietInput bulletAndEnemyWorld)) (basicEnemy 400 792.8)
   \<and> enemies (update quietInput bulletAndEnemyWorld) = [(basicEnemy 400 792.8)\<lparr>e_health := 0\<rparr>]
   \<and> gameState invincibleWorld = PLAYING
   \<and> invincible (player invincibleWorld)
   \<and> enemies (update quietInput invincibleWorld) = enemies (preContact quietInput invincibleWorld)"
proof -
  have pc: "enemies (preContact quietInput bulletAndEnemyWorld) = [basicEnemy 400 792.8]"
    by (simp add: bulletAndEnemyWorld_def world_defs tick_defs const_defs)
  have pl: "player (preContact quietInput bulletAndEnemyWorld) = initialPlayer"
    by (simp add: preContact_player bulletAndEnemyWorld_def world_defs movePlayer_def
        clampPlayer_def const_defs)
  have t: "enemyTouches initialPlayer (basicEnemy 400 792.8)"
    by (simp add: enemyTouches_def touches_def world_defs const_defs)
  have g: "gameState bulletAndEnemyWorld = PLAYING" "\<not> invincible (player bulletAndEnemyWorld)"
    "gameState invincibleWorld = PLAYING" "invincible (player invincibleWorld)"
    by (simp_all add: bulletAndEnemyWorld_def invincibleWorld_def world_defs)
  show ?thesis
    using contact_destroys_enemy[of bulletAndEnemyWorld quietInput quietInput quietWorld]
      contact_destroys_enemy[of invincibleWorld quietInput quietInput quietWorld]
    using t by (simp add: g pc pl)
qed

text \<open>
  The claim as stated fails for an invincible player: the enemy that overlaps the
  player after moving is still in the list, with its health, when the tick ends.
\<close>

theorem contact_while_invincible_counterexample:
  "gameState invincibleWorld = PLAYING
   \<and> enemyTouches (player (update quietInput invincibleWorld)) (basicEnemy 380 792.8)
   \<and> enemies (update quietInput invincibleWorld) = [basicEnemy 380 792.8]
   \<and> e_health (basicEnemy 380 792.8) = 1"
  by (simp add: invincibleWorld_def world_defs tick_defs const_defs)

section \<open>What does hold for health and invincibility\<close>

lemma updateBosses_health: "health (fst (updateBosses inp w k)) = health w"
  by (simp add: updateBosses_def Let_def split_def)

lemma bossSpawning_health: "health (bossSpawning inp w) = health w"
  by (simp add: bossSpawning_def split: option.splits)

lemma bossEntrance_health: "health (fst (bossEntrance inp w)) = health w"
  by (simp add: bossEntrance_def)

lemma spawnEnemies_health: "health (fst (spawnEnemies inp e w k)) = health w"
  by (simp add: spawnEnemies_def Let_def)

lemma moveEntities_health: "health (fst (moveEntities inp w)) = health w"
  by (simp add: moveEntities_def Let_def split_def updateEnemies_def spawnEnemies_health
      bossEntrance_health bossSpawning_health updateBosses_health updateBullets_def
      handleShooting_def handleMovement_def)

lemma updatePowerUps_health: "health (fst (updatePowerUps inp w k)) = health w"
  by (simp add: updatePowerUps_def Let_def split_def)

lemma escapedEnemies_health: "health (escapedEnemies w) = health w"
  by (simp add: escapedEnemies_def Let_def)

lemma advance_health: "health (advance inp w) = health w"
  by (simp add: advance_unfold updatePowerUps_health escapedEnemies_health moveEntities_health)

lemma levelUpCheck_health:
  "health w \<le> health (levelUpCheck w)"
  "health w \<le> PLAYER_MAX_HEALTH \<Longrightarrow> health (levelUpCheck w) \<le> PLAYER_MAX_HEALTH"
  by (simp_all add: levelUpCheck_def Let_def)

lemma bulletVsEnemies_health:
  "health w \<le> health (snd (snd (bulletVsEnemies b es w)))"
proof (induction es arbitrary: b w)
  case Nil
  show ?case by simp
next
  case (Cons e es)
  let ?w1 = "levelUpCheck (w\<lparr>score := score w + scoreValue e\<rparr>)"
  have 1: "health w \<le> health ?w1"
    using levelUpCheck_health(1)[of "w\<lparr>score := score w + scoreValue e\<rparr>"] by simp
  have 2: "health ?w1 \<le> health (snd (snd (bulletVsEnemies (b\<lparr>b_y := - 100\<rparr>) es ?w1)))"
    by (rule Cons.IH)
  show ?case
    using 1 2 Cons.IH[where b = b and w = w] Cons.IH[where b = "b\<lparr>b_y := - 100\<rparr>" and w = w]
    by (simp add: Let_def split_def)
qed

lemma bulletVsEnemies_health_max:
  assumes "health w \<le> PLAYER_MAX_HEALTH"
  shows "health (snd (snd (bulletVsEnemies b es w))) \<le> PLAYER_MAX_HEALTH"
  using assms
proof (induction es arbitrary: b w)
  case Nil
  then show ?case by simp
next
  case (Cons e es)
  let ?w1 = "levelUpCheck (w\<lparr>score := score w + scoreValue e\<rparr>)"
  have 1: "health ?w1 \<le> PLAYER_MAX_HEALTH"
    using levelUpCheck_health(2)[of "w\<lparr>score := score w + scoreValue e\<rparr>"] Cons.prems
    by simp
  show ?case
    using Cons.IH[OF 1] Cons.IH[OF Cons.prems]
    by (simp add: Let_def split_def)
qed

lemma collideBullet_health:
  "health w \<le> health (snd (collideBullet b w))"
  "health w \<le> PLAYER_MAX_HEALTH \<Longrightarrow> health (snd (collideBullet b w)) \<le> PLAYER_MAX_HEALTH"
proof -
  let ?w1 = "w\<lparr>bosses := fst (snd (bulletVsBosses b (bosses w) (score w))),
                score := snd (snd (bulletVsBosses b (bosses w) (score w)))\<rparr>"
  have h1: "health ?w1 = health w" by simp
  show "health w \<le> health (snd (collideBullet b w))"
    using bulletVsEnemies_health[where w = ?w1 and b = "fst (bulletVsBosses b (bosses w) (score w))"
        and es = "enemies w"] h1
    by (simp add: collideBullet_def split_def Let_def)
  show "health (snd (collideBullet b w)) \<le> PLAYER_MAX_HEALTH" if "health w \<le> PLAYER_MAX_HEALTH"
    using bulletVsEnemies_health_max[where w = ?w1
        and b = "fst (bulletVsBosses b (bosses w) (score w))" and es = "enemies w"] that h1
    by (simp add: collideBullet_def split_def Let_def)
qed

lemma collideBullets_health: "health w \<le> health (snd (collideBullets bs w))"
proof (induction bs arbitrary: w)
  case Nil
  show ?case by simp
next
  case (Cons b bs)
  show ?case
    using collideBullet_health(1)[where w = w and b = b]
      Cons.IH[where w = "snd (collideBullet b w)"]
    by (simp add: split_def Let_def)
qed

lemma collideBullets_health_max:
  assumes "health w \<le> PLAYER_MAX_HEALTH"
  shows "health (snd (collideBullets bs w)) \<le> PLAYER_MAX_HEALTH"
  using assms
proof (induction bs arbitrary: w)
  case Nil
  then show ?case by simp
next
  case (Cons b bs)
  show ?case
    using Cons.IH[OF collideBullet_health(2)[OF Cons.prems, where b = b]]
    by (simp add: split_def Let_def)
qed

lemma preContact_health:
  "health w \<le> health (preContact inp w)"
  "health w \<le> PLAYER_MAX_HEALTH \<Longrightarrow> health (preContact inp w) \<le> PLAYER_MAX_HEALTH"
proof -
  have eq: "health (preContact inp w) = health (snd (collideBullets (bullets (advance inp w)) (advance inp w)))"
    by (simp add: preContact_def cleanupDeadBosses_def bulletCollisions_def split_def Let_def)
  show "health w \<le> health (preContact inp w)"
    using collideBullets_health[where w = "advance inp w" and bs = "bullets (advance inp w)"]
    by (simp add: eq advance_health)
  show "health (preContact inp w) \<le> PLAYER_MAX_HEALTH" if "health w \<le> PLAYER_MAX_HEALTH"
    using collideBullets_health_max[where w = "advance inp w" and bs = "bullets (advance inp w)"]
      that
    by (simp add: eq advance_health)
qed

lemma playerCollisions_health: "health (playerCollisions inp w) \<le> health w"
proof (cases "invincible (player w)")
  case True
  then show ?thesis by (simp add: playerCollisions_def)
next
  case False
  then show ?thesis by (simp add: playerCollisions_eq hits_health)
qed

lemma update_health:
  assumes "gameState w = PLAYING"
  shows "health (update inp w) = health (playerCollisions inp (preContact inp w))"
  using assms
  by (simp add: update_def updateTimers_def powerUpCollisions_def split_def Let_def)

text \<open>Healing never takes the health above \<open>PLAYER_MAX_HEALTH\<close>.\<close>

lemma health_upper_bound:
  assumes "health w \<le> PLAYER_MAX_HEALTH"
  shows "health (update inp w) \<le> PLAYER_MAX_HEALTH"
proof (cases "gameState w = PLAYING")
  case False
  with assms show ?thesis by (simp add: update_def)
next
  case True
  have "health (update inp w) \<le> health (preContact inp w)"
    by (simp add: update_health[OF True] playerCollisions_health)
  with preContact_health(2)[OF assms, where inp = inp] show ?thesis by simp
qed

text \<open>
  A tick that starts with the player invincible takes no health, and the flag stays
  set until more than 2000ms have passed since the hit.
\<close>

lemma movePlayer_timer: "invincibleTimer (movePlayer inp p) = invincibleTimer p"
  by (simp add: movePlayer_def if_distrib[of invincibleTimer] let_app[of invincibleTimer]
      split: option.split prod.split)

lemma movePlayer_invincibleTimer:
  "invincibleTimer (clampPlayer (movePlayer inp p)) = invincibleTimer p"
  by (simp add: clampPlayer_def movePlayer_timer)

lemma playerVsPowerUps_invincible:
  "invincible (snd (playerVsPowerUps t ps pl)) = invincible pl"
  "invincibleTimer (snd (playerVsPowerUps t ps pl)) = invincibleTimer pl"
  by (induction ps arbitrary: pl) (simp_all add: split_def Let_def)

lemma no_loss_while_invincible:
  assumes "gameState w = PLAYING" and "invincible (player w)"
  shows "health w \<le> health (update inp w)"
    and "now inp - invincibleTimer (player w) \<le> 2000 \<Longrightarrow> invincible (player (update inp w))"
proof -
  have inv: "invincible (player (preContact inp w))"
    using assms(2) by (simp add: preContact_player movePlayer_flags)
  have pc: "playerCollisions inp (preContact inp w) = preContact inp w"
    using inv by (simp add: playerCollisions_def)
  show "health w \<le> health (update inp w)"
    using preContact_health(1)[where w = w and inp = inp] by (simp add: update_health[OF assms(1)] pc)
  show "invincible (player (update inp w))" if "now inp - invincibleTimer (player w) \<le> 2000"
  proof -
    let ?w = "powerUpCollisions inp (preContact inp w)"
    have p: "invincible (player ?w)" "invincibleTimer (player ?w) = invincibleTimer (player w)"
      using inv
      by (simp_all add: powerUpCollisions_def split_def Let_def playerVsPowerUps_invincible
          preContact_player movePlayer_invincibleTimer)
    have "invincible (player (updateTimers inp ?w))"
      using p that by (simp add: updateTimers_def Let_def)
    then show ?thesis
      using assms(1) by (simp add: update_def pc)
  qed
qed

section \<open>Leaving and entering PLAYING\<close>

text \<open>
  What the two effects do. When gameState changes from PLAYING to PAUSED, GAMEOVER or
  START, the enemies, bullets, power-ups and bosses are cleared at once; the warning
  flag and the pending callbacks are not touched. The boss warning flag is reset,
  together with the same collections, score, level and health, when gameState next
  becomes PLAYING; the pending callbacks are kept then as well.
\<close>

lemma leaving_playing_clears_entities:
  "(gameState w = PLAYING \<and> g \<noteq> PLAYING \<longrightarrow>
      gameState (setGameState g w) = g
      \<and> enemies (setGameState g w) = [] \<and> bullets (setGameState g w) = []
      \<and> powerUps (setGameState g w) = [] \<and> bosses (setGameState g w) = []
      \<and> bossWarningActive (setGameState g w) = bossWarningActive w
      \<and> timeouts (setGameState g w) = timeouts w)
   \<and> (gameState w \<noteq> PLAYING \<and> prevGameState w = gameState w \<longrightarrow>
      gameState (setGameState PLAYING w) = PLAYING
      \<and> \<not> bossWarningActive (setGameState PLAYING w)
      \<and> enemies (setGameState PLAYING w) = [] \<and> bullets (setGameState PLAYING w) = []
      \<and> powerUps (setGameState PLAYING w) = [] \<and> bosses (setGameState PLAYING w) = []
      \<and> level (setGameState PLAYING w) = 1 \<and> score (setGameState PLAYING w) = 0
      \<and> health (setGameState PLAYING w) = PLAYER_MAX_HEALTH
      \<and> timeouts (setGameState PLAYING w) = timeouts w)"
proof -
  have leave: "gameState w = PLAYING \<Longrightarrow> g \<noteq> PLAYING \<Longrightarrow>
      gameState (setGameState g w) = g
      \<and> enemies (setGameState g w) = [] \<and> bullets (setGameState g w) = []
      \<and> powerUps (setGameState g w) = [] \<and> bosses (setGameState g w) = []
      \<and> bossWarningActive (setGameState g w) = bossWarningActive w
      \<and> timeouts (setGameState g w) = timeouts w"
    by (cases g) (simp_all add: setGameState_def clearEffect_def resetEffect_def Let_def)
  have enter: "gameState w \<noteq> PLAYING \<Longrightarrow> prevGameState w = gameState w \<Longrightarrow>
      gameState (setGameState PLAYING w) = PLAYING
      \<and> \<not> bossWarningActive (setGameState PLAYING w)
      \<and> enemies (setGameState PLAYING w) = [] \<and> bullets (setGameState PLAYING w) = []
      \<and> powerUps (setGameState PLAYING w) = [] \<and> bosses (setGameState PLAYING w) = []
      \<and> level (setGameState PLAYING w) = 1 \<and> score (setGameState PLAYING w) = 0
      \<and> health (setGameState PLAYING w) = PLAYER_MAX_HEALTH
      \<and> timeouts (setGameState PLAYING w) = timeouts w"
    by (simp add: setGameState_def clearEffect_def resetEffect_def Let_def)
  from leave enter show ?thesis by blast
qed

lemma pauseWorld_warned:
  "update quietInput pauseWorld =
     pauseWorld\<lparr>bossWarningActive := True, enemies := [],
       bullets := [playerBullet 600 485 0],
       powerUps := [\<lparr>pu_id = Random_id, pu_x = 200, pu_y = 102, pu_width = 30,
                     pu_height = 30, pu_speed = 2, pu_type = SHIELD\<rparr>],
       timeouts := [\<lparr>to_due = 103016, to_now = 100016,
                     to_config = \<lparr>bc_width = 150, bc_height = 100, bc_health = 100,
                                  bc_scoreValue = 5000, bc_speed = 1.2\<rparr>\<rparr>]\<rparr>"
  by (simp add: pauseWorld_def world_defs tick_defs const_defs BOSS_CONFIGS_def)

text \<open>
  C7. The claim is that leaving PLAYING clears the transient collections and resets
  the boss director, so that no boss or escort spawns afterwards from a warning that
  started before. In the code the tick at level 5 starts the warning and registers its
  callback; the change to PAUSED empties the four collections (a bullet and a power-up
  were in the field) but leaves the warning flag set and the callback pending. When
  the host runs the callback 3000ms after the warning, a boss enters the world although
  the state is PAUSED; and if the game has been restarted in between, the level-5 boss
  (150 wide, 100 health) enters the new game at level 1, where no boss is due.
\<close>

theorem boss_spawns_after_pause:
  "gameState (update quietInput pauseWorld) = PLAYING
   \<and> length (bullets (update quietInput pauseWorld)) = 1
   \<and> length (powerUps (update quietInput pauseWorld)) = 1
   \<and> bullets (setGameState PAUSED (update quietInput pauseWorld)) = []
   \<and> powerUps (setGameState PAUSED (update quietInput pauseWorld)) = []
   \<and> enemies (setGameState PAUSED (update quietInput pauseWorld)) = []
   \<and> bosses (setGameState PAUSED (update quietInput pauseWorld)) = []
   \<and> bossWarningActive (setGameState PAUSED (update quietInput pauseWorld))
   \<and> length (timeouts (setGameState PAUSED (update quietInput pauseWorld))) = 1
   \<and> gameState (fireTimeout 103016 (setGameState PAUSED (update quietInput pauseWorld))) = PAUSED
   \<and> length (bosses (fireTimeout 103016 (setGameState PAUSED (update quietInput pauseWorld)))) = 1
   \<and> level (fireTimeout 103016
        (setGameState PLAYING (setGameState PAUSED (update quietInput pauseWorld)))) = 1
   \<and> map e_width (bosses (fireTimeout 103016
        (setGameState PLAYING (setGameState PAUSED (update quietInput pauseWorld))))) = [150]
   \<and> map e_health (bosses (fireTimeout 103016
        (setGameState PLAYING (setGameState PAUSED (update quietInput pauseWorld))))) = [100]"
  by (simp add: pauseWorld_warned)
     (simp add: pauseWorld_def world_defs setGameState_def clearEffect_def resetEffect_def
       fireTimeout_def bossSpawnCallback_def bossCount_def escortCount_def spawnBoss_def Let_def)

section \<open>From the boss warning to the spawn\<close>

lemma moveEntities_unfold:
  "fst (moveEntities inp w) =
     updateEnemies inp
       (fst (spawnEnemies inp
          (snd (bossEntrance inp
             (bossSpawning inp
                (fst (updateBosses inp (updateBullets (handleShooting inp (handleMovement inp w))) 0)))))
          (fst (bossEntrance inp
             (bossSpawning inp
                (fst (updateBosses inp (updateBullets (handleShooting inp (handleMovement inp w))) 0)))))
          (snd (updateBosses inp (updateBullets (handleShooting inp (handleMovement inp w))) 0))))"
  by (simp add: moveEntities_def Let_def split_def)

lemma awaiting_player_steps:
  assumes "awaitingBoss L ts w"
  shows "awaitingBoss L ts (updateBullets (handleShooting inp (handleMovement inp w)))"
  using assms
  by (simp add: awaitingBoss_def updateBullets_def handleShooting_def handleMovement_def)

lemma awaiting_updateBosses:
  assumes "awaitingBoss L ts w"
  shows "awaitingBoss L ts (fst (updateBosses inp w k))"
  using assms by (simp add: awaitingBoss_def updateBosses_def)

lemma awaiting_bossSpawning:
  assumes "awaitingBoss L ts w"
  shows "awaitingBoss L ts (bossSpawning inp w)"
  using assms by (simp add: awaitingBoss_def bossSpawning_def)

lemma awaiting_bossEntrance:
  assumes "awaitingBoss L ts w"
  shows "awaitingBoss L ts (fst (bossEntrance inp w))"
  using assms by (simp add: awaitingBoss_def bossEntrance_def)

lemma awaiting_spawnEnemies:
  assumes "awaitingBoss L ts w"
  shows "awaitingBoss L ts (fst (spawnEnemies inp e w k))"
  using assms by (simp add: awaitingBoss_def spawnEnemies_def)

lemma awaiting_updateEnemies:
  assumes "awaitingBoss L ts w"
  shows "awaitingBoss L ts (updateEnemies inp w)"
  using assms by (simp add: awaitingBoss_def updateEnemies_def)

lemma awaiting_moveEntities:
  assumes "awaitingBoss L ts w"
  shows "awaitingBoss L ts (fst (moveEntities inp w))"
  unfolding moveEntities_unfold
  by (intro awaiting_updateEnemies awaiting_spawnEnemies awaiting_bossEntrance
      awaiting_bossSpawning awaiting_updateBosses awaiting_player_steps assms)

lemma idle_player_steps:
  assumes "bossIdle L w"
  shows "bossIdle L (updateBullets (handleShooting inp (handleMovement inp w)))"
  using assms
  by (simp add: bossIdle_def updateBullets_def handleShooting_def handleMovement_def)

lemma idle_updateBosses:
  assumes "bossIdle L w"
  shows "bossIdle L (fst (updateBosses inp w k))"
  using assms by (simp add: bossIdle_def updateBosses_def)

lemma idle_bossSpawning:
  assumes "bossIdle L w" and "L \<in> set bossLevels" and "BOSS_CONFIGS L = Some c"
  shows "awaitingBoss L [\<lparr>to_due = now inp + 3000, to_now = now inp, to_config = c\<rparr>]
           (bossSpawning inp w)"
  using assms by (simp add: bossIdle_def awaitingBoss_def bossSpawning_def)

lemma trigger_moveEntities:
  assumes "bossIdle L w" and "L \<in> set bossLevels" and "BOSS_CONFIGS L = Some c"
  shows "awaitingBoss L [\<lparr>to_due = now inp + 3000, to_now = now inp, to_config = c\<rparr>]
           (fst (moveEntities inp w))"
  unfolding moveEntities_unfold
  by (intro awaiting_updateEnemies awaiting_spawnEnemies awaiting_bossEntrance
      idle_bossSpawning[OF _ assms(2,3)] idle_updateBosses idle_player_steps assms(1))

lemma collideBullet_idle:
  assumes "bosses w = []" and "enemies w = []"
  shows "collideBullet b w = (b, w)"
  using assms by (simp add: collideBullet_def)

lemma collideBullets_idle:
  assumes "bosses w = []" and "enemies w = []"
  shows "collideBullets bs w = (bs, w)"
  using assms by (induction bs) (simp_all add: collideBullet_idle)

lemma awaiting_bulletCollisions:
  assumes "awaitingBoss L ts w"
  shows "awaitingBoss L ts (bulletCollisions w)"
  using assms by (simp add: awaitingBoss_def bulletCollisions_def collideBullets_idle)

lemma hits_director [simp]:
  "gameState ((takeHit t ^^ n) w) = gameState w"
  "bossWarningActive ((takeHit t ^^ n) w) = bossWarningActive w"
  "level ((takeHit t ^^ n) w) = level w"
  "timeouts ((takeHit t ^^ n) w) = timeouts w"
  by (induction n) (simp_all add: takeHit_def Let_def)

lemma awaiting_playerCollisions:
  assumes "awaitingBoss L ts w"
  shows "awaitingBoss L ts (playerCollisions inp w)"
proof (cases "invincible (player w)")
  case True
  with assms show ?thesis by (simp add: playerCollisions_def)
next
  case False
  with assms show ?thesis by (simp add: playerCollisions_eq awaitingBoss_def)
qed

lemma awaiting_update:
  assumes "awaitingBoss L ts w"
  shows "awaitingBoss L ts (update inp w)"
proof -
  have 1: "awaitingBoss L ts (fst (moveEntities inp w))"
    using assms by (rule awaiting_moveEntities)
  have 2: "awaitingBoss L ts (advance inp w)"
    using 1 by (simp add: advance_unfold awaitingBoss_def escapedEnemies_def updatePowerUps_def
        Let_def split_def)
  have 3: "awaitingBoss L ts (preContact inp w)"
    using awaiting_bulletCollisions[OF 2]
    by (simp add: preContact_def awaitingBoss_def cleanupDeadBosses_def)
  have 4: "awaitingBoss L ts (playerCollisions inp (preContact inp w))"
    using 3 by (rule awaiting_playerCollisions)
  have 5: "awaitingBoss L ts
             (updateTimers inp (powerUpCollisions inp (playerCollisions inp (preContact inp w))))"
    using 4 by (simp add: awaitingBoss_def updateTimers_def powerUpCollisions_def Let_def
        split_def)
  from assms 5 show ?thesis by (simp add: update_def awaitingBoss_def)
qed

lemma awaiting_run:
  assumes "awaitingBoss L ts w"
  shows "awaitingBoss L ts (run inps w)"
  using assms unfolding run_def
  by (induction inps arbitrary: w) (simp_all add: awaiting_update)

lemma trigger_update:
  assumes "bossIdle L w" and "L \<in> set bossLevels" and "BOSS_CONFIGS L = Some c"
  shows "awaitingBoss L [\<lparr>to_due = now inp + 3000, to_now = now inp, to_config = c\<rparr>]
           (update inp w)"
proof -
  let ?ts = "[\<lparr>to_due = now inp + 3000, to_now = now inp, to_config = c\<rparr>]"
  have 1: "awaitingBoss L ?ts (fst (moveEntities inp w))"
    using assms by (rule trigger_moveEntities)
  have 2: "awaitingBoss L ?ts (advance inp w)"
    using 1 by (simp add: advance_unfold awaitingBoss_def escapedEnemies_def updatePowerUps_def
        Let_def split_def)
  have 3: "awaitingBoss L ?ts (preContact inp w)"
    using awaiting_bulletCollisions[OF 2]
    by (simp add: preContact_def awaitingBoss_def cleanupDeadBosses_def)
  have 4: "awaitingBoss L ?ts (playerCollisions inp (preContact inp w))"
    using 3 by (rule awaiting_playerCollisions)
  have 5: "awaitingBoss L ?ts
             (updateTimers inp (powerUpCollisions inp (playerCollisions inp (preContact inp w))))"
    using 4 by (simp add: awaitingBoss_def updateTimers_def powerUpCollisions_def Let_def
        split_def)
  from assms(1) 5 show ?thesis by (simp add: update_def bossIdle_def)
qed

lemma bossLevels_config:
  assumes "L \<in> set bossLevels"
  shows "\<exists>c. BOSS_CONFIGS L = Some c"
  using assms by (auto simp: bossLevels_def BOSS_CONFIGS_def)

lemma fire_after_warning:
  assumes "awaitingBoss L [t] w" and "to_due t \<le> clock"
  shows "bosses (fireTimeout clock w) =
           map (spawnBoss (to_config t) (to_now t) (bossCount L)) [0 ..< bossCount L]"
    and "enemies (fireTimeout clock w) =
           map (spawnEscort (to_now t) (escortCount L)) [0 ..< escortCount L]"
    and "\<not> bossWarningActive (fireTimeout clock w)"
    and "timeouts (fireTimeout clock w) = []"
  using assms
  by (simp_all add: awaitingBoss_def fireTimeout_def bossSpawnCallback_def Let_def)

lemma fire_too_early:
  assumes "awaitingBoss L [t] w" and "clock < to_due t"
  shows "fireTimeout clock w = w"
  using assms by (simp add: awaitingBoss_def fireTimeout_def)

text \<open>
  C9. A tick at a boss level \<open>L\<close> with no boss, no warning and no pending callback
  starts the warning and clears the regular enemies in that same tick. However many
  ticks follow, the world then stays without bosses and enemies, and the callback does
  nothing before 3000ms have passed. When it runs, the world holds exactly 2 bosses
  at level 20, 3 at level 30 and 1 otherwise, their centres evenly spaced over the
  field width and their speeds alternating in sign, and as its only regular enemies
  2, 3 or 5 escorts at levels 20, 30 and 50 (none otherwise), each of type HEAVY with
  twice the health of the HEAVY configuration.
\<close>

theorem boss_warning_spawn:
  assumes playing: "gameState w = PLAYING"
    and lvl: "level w = L" "L \<in> set bossLevels"
    and idle: "bosses w = []" "\<not> bossWarningActive w" "timeouts w = []"
    and cfg: "BOSS_CONFIGS L = Some c"
    and n: "n = (if L = 20 then 2 else if L = 30 then 3 else 1)"
    and m: "m = (if L = 20 then 2 else if L = 30 then 3 else if L = 50 then 5 else 0)"
    and during: "w1 = run inps (update inp w)"
    and due: "now inp + 3000 \<le> clock"
    and early: "early < now inp + 3000"
  shows "enemies (update inp w) = [] \<and> bossWarningActive (update inp w)
       \<and> bosses w1 = [] \<and> enemies w1 = [] \<and> bossWarningActive w1
       \<and> fireTimeout early w1 = w1
       \<and> length (bosses (fireTimeout clock w1)) = n
       \<and> map (\<lambda>e. e_x e + e_width e / 2) (bosses (fireTimeout clock w1)) =
           map (\<lambda>i. CANVAS_WIDTH / real (n + 1) * real (i + 1)) [0 ..< n]
       \<and> map e_speed (bosses (fireTimeout clock w1)) =
           map (\<lambda>i. if even i then bc_speed c else - bc_speed c) [0 ..< n]
       \<and> map e_health (bosses (fireTimeout clock w1)) = replicate n (bc_health c)
       \<and> length (enemies (fireTimeout clock w1)) = m
       \<and> map e_type (enemies (fireTimeout clock w1)) = replicate m HEAVY
       \<and> map e_health (enemies (fireTimeout clock w1)) =
           replicate m (2 * ec_health (ENEMY_CONFIGS HEAVY))
       \<and> \<not> bossWarningActive (fireTimeout clock w1)"
proof -
  let ?t = "\<lparr>to_due = now inp + 3000, to_now = now inp, to_config = c\<rparr>"
  have a0: "awaitingBoss L [?t] (update inp w)"
    using playing lvl idle cfg by (intro trigger_update) (simp_all add: bossIdle_def)
  have a1: "awaitingBoss L [?t] w1"
    unfolding during using a0 by (rule awaiting_run)
  have bc: "bossCount L = n" and ec: "escortCount L = m"
    using lvl(2) by (auto simp: n m bossCount_def escortCount_def bossLevels_def)
  have d: "to_due ?t \<le> clock" using due by simp
  have e: "early < to_due ?t" using early by simp
  note f = fire_after_warning[OF a1 d, unfolded bc ec]
  have bossesEq: "bosses (fireTimeout clock w1) = map (spawnBoss c (now inp) n) [0 ..< n]"
    using f(1) by simp
  have escortsEq: "enemies (fireTimeout clock w1) = map (spawnEscort (now inp) m) [0 ..< m]"
    using f(2) by simp
  have 1: "enemies (update inp w) = [] \<and> bossWarningActive (update inp w)"
    using a0 by (simp add: awaitingBoss_def)
  have 2: "bosses w1 = [] \<and> enemies w1 = [] \<and> bossWarningActive w1"
    using a1 by (simp add: awaitingBoss_def)
  have 3: "fireTimeout early w1 = w1"
    using a1 e by (rule fire_too_early)
  have 4: "length (bosses (fireTimeout clock w1)) = n"
    by (simp add: bossesEq)
  have 5: "map (\<lambda>e. e_x e + e_width e / 2) (bosses (fireTimeout clock w1)) =
           map (\<lambda>i. CANVAS_WIDTH / real (n + 1) * real (i + 1)) [0 ..< n]"
    by (simp add: bossesEq spawnBoss_def comp_def)
  have 6: "map e_speed (bosses (fireTimeout clock w1)) =
           map (\<lambda>i. if even i then bc_speed c else - bc_speed c) [0 ..< n]"
    by (simp add: bossesEq spawnBoss_def comp_def even_iff_mod_2_eq_zero)
  have 7: "map e_health (bosses (fireTimeout clock w1)) = replicate n (bc_health c)"
    by (simp add: bossesEq spawnBoss_def comp_def map_replicate_const)
  have 8: "length (enemies (fireTimeout clock w1)) = m"
    by (simp add: escortsEq)
  have 9: "map e_type (enemies (fireTimeout clock w1)) = replicate m HEAVY"
    by (simp add: escortsEq spawnEscort_def comp_def Let_def map_replicate_const)
  have 10: "map e_health (enemies (fireTimeout clock w1)) =
           replicate m (2 * ec_health (ENEMY_CONFIGS HEAVY))"
    by (simp add: escortsEq spawnEscort_def comp_def Let_def map_replicate_const)
  have 11: "\<not> bossWarningActive (fireTimeout clock w1)"
    using f(3) .
  from 1 2 3 4 5 6 7 8 9 10 11 show ?thesis by simp
qed

theorem boss_warning_spawn_witness:
  "gameState level20World = PLAYING \<and> level level20World = 20
   \<and> length (enemies level20World) = 1
   \<and> enemies (update quietInput level20World) = []
   \<and> bosses (run [laterInput] (update quietInput level20World)) = []
   \<and> length (bosses (fireTimeout 103016 (run [laterInput] (update quietInput level20World)))) = 2
   \<and> map e_speed (bosses (fireTimeout 103016 (run [laterInput] (update quietInput level20World))))
       = [2.5, - 2.5]
   \<and> map e_health (enemies (fireTimeout 103016 (run [laterInput] (update quietInput level20World))))
       = [12, 12]
   \<and> length (bosses (fireTimeout 103016 (run [laterInput] (update quietInput level5World)))) = 1
   \<and> enemies (fireTimeout 103016 (run [laterInput] (update quietInput level5World))) = []"
proof -
  have c20: "BOSS_CONFIGS 20 = Some \<lparr>bc_width = 250, bc_height = 200, bc_health = 800,
      bc_scoreValue = 50000, bc_speed = 2.5\<rparr>"
    and c5: "BOSS_CONFIGS 5 = Some \<lparr>bc_width = 150, bc_height = 100, bc_health = 100,
      bc_scoreValue = 5000, bc_speed = 1.2\<rparr>"
    by (simp_all add: BOSS_CONFIGS_def)
  have w20: "gameState level20World = PLAYING" "level level20World = 20"
    "bosses level20World = []" "\<not> bossWarningActive level20World" "timeouts level20World = []"
    "length (enemies level20World) = 1"
    by (simp_all add: level20World_def world_defs)
  have w5: "gameState level5World = PLAYING" "level level5World = 5"
    "bosses level5World = []" "\<not> bossWarningActive level5World" "timeouts level5World = []"
    by (simp_all add: level5World_def world_defs)
  have t: "now quietInput + 3000 \<le> 103016" "103000 < now quietInput + 3000"
    by (simp_all add: quietInput_def)
  have l: "(20::int) \<in> set bossLevels" "(5::int) \<in> set bossLevels"
    by (simp_all add: bossLevels_def)
  note a = boss_warning_spawn[where w = level20World and L = 20 and n = 2 and m = 2
      and inp = quietInput and inps = "[laterInput]" and clock = 103016 and early = 103000,
      OF w20(1) w20(2) l(1) w20(3) w20(4) w20(5) c20 _ _ refl t]
  note b = boss_warning_spawn[where w = level5World and L = 5 and n = 1 and m = 0
      and inp = quietInput and inps = "[laterInput]" and clock = 103016 and early = 103000,
      OF w5(1) w5(2) l(2) w5(3) w5(4) w5(5) c5 _ _ refl t]
  show ?thesis
    using a b w20 by (simp add: numeral_2_eq_2)
qed

section \<open>Boss bullets against the boss that fired them\<close>

text \<open>Neither collision loop looks at \<open>isEnemy\<close>.\<close>

lemma hits_isEnemy [simp]: "hits (b\<lparr>isEnemy := v\<rparr>) e = hits b e"
  by (simp add: hits_def)





























































end
